theory Spec2Isabelle
  imports Main "HOL-Library.Word"
begin

section \<open>Data model\<close>

text \<open>
  The chat subsystem of the asteroid tracker: the \<open>ChatMessage\<close> model, the socket
  handlers of \<open>services/socketService.js\<close> and the REST routes of \<open>routes/chat.js\<close>.

  A JavaScript string is a sequence of 16-bit code units; \<open>length\<close> counts code units.
  Identifiers (socket ids, room names, user ids as printed by \<open>toString()\<close>, asteroid ids)
  are kept as HOL strings. Message ids are natural numbers, points in time (the values of
  \<open>new Date()\<close>) are natural numbers as well.
\<close>

type_synonym jsstring = "16 word list"

datatype message_type = Text | System | Announcement

record reaction =
  r_emoji :: "string option"
  r_userId :: string
  r_createdAt :: nat

record chat_message =
  msg_id :: nat
  asteroidId :: string
  neoReferenceId :: string
  asteroidName :: string
  userId :: string
  username :: string
  userAvatar :: "string option"
  message :: jsstring
  messageType :: message_type
  replyTo :: "nat option"
  reactions :: "reaction list"
  deleted :: bool
  deletedAt :: "nat option"
  createdAt :: nat

record asteroid =
  a_neoReferenceId :: string
  a_name :: string

text \<open>
  The connection object: \<open>userId\<close> is \<open>null\<close> for a guest; \<open>currentAsteroid\<close> and
  \<open>currentRoom\<close> are the two fields the handlers store on the socket.
\<close>

record socket =
  s_userId :: "string option"
  s_username :: string
  s_userAvatar :: "string option"
  currentAsteroid :: "string option"
  currentRoom :: "string option"

text \<open>
  The server: the connected sockets by id, the adapter's room table
  (\<open>io.sockets.adapter.rooms\<close>, a room that is absent has no member), the message
  collection in insertion order, the asteroid collection, the next fresh message id, and
  the outcomes of the coming database calls (\<open>False\<close>: the call throws; when the list is
  exhausted every call succeeds).
\<close>

record server =
  sockets :: "string \<Rightarrow> socket"
  rooms :: "string \<Rightarrow> string set"
  db :: "chat_message list"
  asteroids :: "string \<Rightarrow> asteroid option"
  next_id :: nat
  faults :: "bool list"

datatype event =
    ChatHistory "chat_message list"
  | UserJoined string
  | ActiveUsers nat
  | UserLeft string
  | NewMessage chat_message
  | UserTyping string "string option"
  | UserStoppedTyping string "string option"
  | ReactionUpdated nat "reaction list"
  | MessageDeleted nat string
  | ChatError string

text \<open>An emission is an event together with the connections it is delivered to.\<close>

type_synonym emission = "string set \<times> event"

section \<open>Strings\<close>

text \<open>
  \<open>String.prototype.trim\<close> removes the code units of WhiteSpace and LineTerminator from
  both ends.
\<close>

definition isWhiteSpace :: "16 word \<Rightarrow> bool" where
  "isWhiteSpace c \<longleftrightarrow>
     c = 0x9 \<or> c = 0xA \<or> c = 0xB \<or> c = 0xC \<or> c = 0xD \<or> c = 0x20 \<or> c = 0xA0 \<or>
     c = 0x1680 \<or> (0x2000 \<le> c \<and> c \<le> 0x200A) \<or> c = 0x2028 \<or> c = 0x2029 \<or>
     c = 0x202F \<or> c = 0x205F \<or> c = 0x3000 \<or> c = 0xFEFF"

definition trim :: "jsstring \<Rightarrow> jsstring" where
  "trim s = rev (dropWhile isWhiteSpace (rev (dropWhile isWhiteSpace s)))"

text \<open>\<open>!v\<close> for a value that is a string or missing: missing and the empty string are falsy.\<close>

definition falsy :: "'a list option \<Rightarrow> bool" where
  "falsy v \<longleftrightarrow> v = None \<or> v = Some []"

text \<open>The string behind a value that has passed the \<open>falsy\<close> test.\<close>

definition str :: "'a list option \<Rightarrow> 'a list" where
  "str v = (case v of None \<Rightarrow> [] | Some s \<Rightarrow> s)"

definition startsWith :: "string \<Rightarrow> string \<Rightarrow> bool" where
  "startsWith room p \<longleftrightarrow> take (length p) room = p"

section \<open>The message collection\<close>

text \<open>
  Every \<open>await\<close> on the database consumes one outcome of \<open>faults\<close>.
\<close>

definition db_ok :: "server \<Rightarrow> bool" where
  "db_ok st = (case faults st of [] \<Rightarrow> True | b # bs \<Rightarrow> b)"

definition db_next :: "server \<Rightarrow> server" where
  "db_next st = st\<lparr>faults := tl (faults st)\<rparr>"

definition findById :: "chat_message list \<Rightarrow> nat \<Rightarrow> chat_message option" where
  "findById coll i = find (\<lambda>m. msg_id m = i) coll"

text \<open>\<open>save()\<close> of a document that was read from the collection writes it back under its id.\<close>

fun save_doc :: "chat_message \<Rightarrow> chat_message list \<Rightarrow> chat_message list" where
  "save_doc d [] = []"
| "save_doc d (m # ms) = (if msg_id m = msg_id d then d # ms else m # save_doc d ms)"

text \<open>
  The cursor's \<open>limit\<close>: a positive number bounds the result, zero means no bound, a negative
  number bounds by its absolute value.
\<close>

definition limit_docs :: "int \<Rightarrow> 'a list \<Rightarrow> 'a list" where
  "limit_docs n xs = (if n = 0 then xs else take (nat \<bar>n\<bar>) xs)"

text \<open>\<open>sort({ createdAt: -1 })\<close>: newest first.\<close>

definition sort_desc :: "chat_message list \<Rightarrow> chat_message list" where
  "sort_desc xs = rev (sort_key createdAt xs)"

text \<open>The filter that \<open>getChatHistory\<close> and the GET route build.\<close>

definition history_query :: "string \<Rightarrow> nat option \<Rightarrow> chat_message \<Rightarrow> bool" where
  "history_query aid beforeDate m \<longleftrightarrow>
     asteroidId m = aid \<and> \<not> deleted m \<and> messageType m \<noteq> System \<and>
     (case beforeDate of None \<Rightarrow> True | Some d \<Rightarrow> createdAt m < d)"

definition getChatHistory ::
  "chat_message list \<Rightarrow> string \<Rightarrow> int \<Rightarrow> nat option \<Rightarrow> chat_message list" where
  "getChatHistory coll aid limit beforeDate =
     limit_docs limit (sort_desc (filter (history_query aid beforeDate) coll))"

definition getMessageCount :: "chat_message list \<Rightarrow> string \<Rightarrow> nat" where
  "getMessageCount coll aid =
     length (filter (\<lambda>m. asteroidId m = aid \<and> \<not> deleted m \<and> messageType m \<noteq> System) coll)"

section \<open>Emitting events\<close>

text \<open>
  \<open>socket.emit\<close> reaches the socket itself, \<open>socket.to(room).emit\<close> the members of the
  room except the socket, \<open>io.to(room).emit\<close> every member of the room. The receivers are
  fixed at the moment of the call.
\<close>

definition socket_emit :: "string \<Rightarrow> event \<Rightarrow> emission" where
  "socket_emit sid e = ({sid}, e)"

definition socket_to :: "server \<Rightarrow> string \<Rightarrow> string \<Rightarrow> event \<Rightarrow> emission" where
  "socket_to st sid room e = (rooms st room - {sid}, e)"

definition io_to :: "server \<Rightarrow> string \<Rightarrow> event \<Rightarrow> emission" where
  "io_to st room e = (rooms st room, e)"

text \<open>\<open>io.sockets.adapter.rooms.get(room)?.size || 0\<close>\<close>

definition room_size :: "server \<Rightarrow> string \<Rightarrow> nat" where
  "room_size st room = card (rooms st room)"

definition socket_join :: "server \<Rightarrow> string \<Rightarrow> string \<Rightarrow> server" where
  "socket_join st sid room = st\<lparr>rooms := (rooms st)(room := insert sid (rooms st room))\<rparr>"

definition socket_leave :: "server \<Rightarrow> string \<Rightarrow> string \<Rightarrow> server" where
  "socket_leave st sid room = st\<lparr>rooms := (rooms st)(room := rooms st room - {sid})\<rparr>"

section \<open>Socket handlers\<close>

text \<open>
  Each handler takes the server, the id of the socket that received the event and the
  payload, and returns the server afterwards with the emissions in the order of the calls.
  Payload fields are strings or missing, message ids are well-formed. A handler that reads
  the clock takes the time as an argument.
\<close>

text \<open>
  \<open>io.on('connection')\<close>: the socket carries the identity the middleware attached to it
  (\<open>userId = null\<close>, \<open>username = 'Guest'\<close> for a guest) and is a member of the room named by
  its own id. The table \<open>connectedUsers\<close> is written here and read nowhere; it is left out.
\<close>

definition connection :: "server \<Rightarrow> string \<Rightarrow> string option \<Rightarrow> string \<Rightarrow> string option \<Rightarrow> server" where
  "connection st sid uid name avatar =
     socket_join
       (st\<lparr>sockets := (sockets st)(sid :=
             \<lparr>s_userId = uid, s_username = name, s_userAvatar = avatar,
              currentAsteroid = None, currentRoom = None\<rparr>)\<rparr>)
       sid sid"

text \<open>
  The loop over \<open>socket.rooms\<close> at the head of \<open>joinAsteroid\<close>: every room of the socket
  whose name starts with \<open>asteroid:\<close>, other than the room being joined, is left.
\<close>

definition leave_previous :: "server \<Rightarrow> string \<Rightarrow> string \<Rightarrow> server" where
  "leave_previous st sid roomName =
     st\<lparr>rooms := (\<lambda>room.
        if sid \<in> rooms st room \<and> startsWith room ''asteroid:'' \<and> room \<noteq> roomName
        then rooms st room - {sid} else rooms st room)\<rparr>"

definition set_current :: "server \<Rightarrow> string \<Rightarrow> string option \<Rightarrow> string option \<Rightarrow> server" where
  "set_current st sid a r =
     st\<lparr>sockets := (sockets st)(sid := (sockets st sid)\<lparr>currentAsteroid := a, currentRoom := r\<rparr>)\<rparr>"

definition joinAsteroid :: "server \<Rightarrow> string \<Rightarrow> string \<Rightarrow> server \<times> emission list" where
  "joinAsteroid st sid aid =
     (let roomName = ''asteroid:'' @ aid;
          st1 = leave_previous st sid roomName;
          st2 = socket_join st1 sid roomName;
          st3 = set_current st2 sid (Some aid) (Some roomName);
          history = (if db_ok st3 then rev (getChatHistory (db st3) aid 50 None) else []);
          st4 = db_next st3
      in (st4,
          [socket_emit sid (ChatHistory history),
           socket_to st4 sid roomName (UserJoined (s_username (sockets st4 sid))),
           io_to st4 roomName (ActiveUsers (room_size st4 roomName))]))"

definition leaveAsteroid :: "server \<Rightarrow> string \<Rightarrow> server \<times> emission list" where
  "leaveAsteroid st sid =
     (case currentRoom (sockets st sid) of
        None \<Rightarrow> (st, [])
      | Some room \<Rightarrow>
          (set_current (socket_leave st sid room) sid None None,
           [socket_to st sid room (UserLeft (s_username (sockets st sid))),
            io_to st room (ActiveUsers (room_size st room))]))"

text \<open>
  \<open>disconnect\<close>: the transport has taken the socket out of all its rooms before the
  handler runs; the fields on the socket object are still there.
\<close>

definition leave_all :: "server \<Rightarrow> string \<Rightarrow> server" where
  "leave_all st sid = st\<lparr>rooms := (\<lambda>room. rooms st room - {sid})\<rparr>"

definition disconnect :: "server \<Rightarrow> string \<Rightarrow> server \<times> emission list" where
  "disconnect st sid =
     (let st1 = leave_all st sid in
      case currentRoom (sockets st1 sid) of
        None \<Rightarrow> (st1, [])
      | Some room \<Rightarrow>
          (st1,
           [socket_to st1 sid room (UserLeft (s_username (sockets st1 sid))),
            io_to st1 room (ActiveUsers (room_size st1 room))]))"

record send_data =
  sd_asteroidId :: "string option"
  sd_neoReferenceId :: "string option"
  sd_asteroidName :: "string option"
  sd_message :: "jsstring option"
  sd_replyTo :: "nat option"

text \<open>
  \<open>new ChatMessage({...})\<close> with the defaults of the schema; the schema trims \<open>message\<close>
  on assignment. The id and the creation time are assigned by the server.
\<close>

definition new_message ::
  "nat \<Rightarrow> nat \<Rightarrow> string \<Rightarrow> string \<Rightarrow> string \<Rightarrow> string \<Rightarrow> string \<Rightarrow> string option \<Rightarrow>
   jsstring \<Rightarrow> nat option \<Rightarrow> chat_message" where
  "new_message i now aid neo aname uid uname avatar body reply =
     \<lparr>msg_id = i, asteroidId = aid, neoReferenceId = neo, asteroidName = aname,
      userId = uid, username = uname, userAvatar = avatar, message = trim body,
      messageType = Text, replyTo = reply, reactions = [], deleted = False,
      deletedAt = None, createdAt = now\<rparr>"

text \<open>
  Insertion of a new document. The checks of the handlers imply the validators of the schema
  (required fields, at most 2000 code units), so a save fails only when the database call
  does. Of the error text \<open>Failed to send message: ...\<close> the part taken from the
  driver's error is left out.
\<close>

definition insert_doc :: "server \<Rightarrow> chat_message \<Rightarrow> server" where
  "insert_doc st d = st\<lparr>db := db st @ [d], next_id := Suc (next_id st)\<rparr>"

definition sendMessage :: "server \<Rightarrow> string \<Rightarrow> send_data \<Rightarrow> nat \<Rightarrow> server \<times> emission list" where
  "sendMessage st sid data now =
     (if falsy (sd_asteroidId data) then
        (st, [socket_emit sid (ChatError ''Asteroid ID is missing'')])
      else if falsy (sd_neoReferenceId data) then
        (st, [socket_emit sid (ChatError ''Neo Reference ID is missing'')])
      else if falsy (sd_message data) \<or> length (trim (str (sd_message data))) = 0 then
        (st, [socket_emit sid (ChatError ''Message cannot be empty'')])
      else if length (str (sd_message data)) > 2000 then
        (st, [socket_emit sid (ChatError ''Message too long (max 2000 characters)'')])
      else case s_userId (sockets st sid) of
        None \<Rightarrow> (st, [socket_emit sid (ChatError ''Please login to send messages'')])
      | Some uid \<Rightarrow>
          (let chatMessage = new_message (next_id st) now
                 (str (sd_asteroidId data)) (str (sd_neoReferenceId data))
                 (if falsy (sd_asteroidName data) then ''Unknown'' else str (sd_asteroidName data))
                 uid (s_username (sockets st sid)) (s_userAvatar (sockets st sid))
                 (trim (str (sd_message data))) (sd_replyTo data)
           in if db_ok st then
                (let st1 = insert_doc (db_next st) chatMessage
                 in (st1, [io_to st1 (''asteroid:'' @ str (sd_asteroidId data)) (NewMessage chatMessage)]))
              else (db_next st, [socket_emit sid (ChatError ''Failed to send message'')])))"

definition typing :: "server \<Rightarrow> string \<Rightarrow> emission list" where
  "typing st sid =
     (case (currentRoom (sockets st sid), s_userId (sockets st sid)) of
        (Some room, Some uid) \<Rightarrow>
          [socket_to st sid room
             (UserTyping (s_username (sockets st sid)) (currentAsteroid (sockets st sid)))]
      | _ \<Rightarrow> [])"

definition stopTyping :: "server \<Rightarrow> string \<Rightarrow> emission list" where
  "stopTyping st sid =
     (case (currentRoom (sockets st sid), s_userId (sockets st sid)) of
        (Some room, Some uid) \<Rightarrow>
          [socket_to st sid room
             (UserStoppedTyping (s_username (sockets st sid)) (currentAsteroid (sockets st sid)))]
      | _ \<Rightarrow> [])"

text \<open>
  The two statements both channels run on the document: the reactions of the user are
  filtered out, the new one is pushed.
\<close>

definition set_reaction :: "chat_message \<Rightarrow> string \<Rightarrow> string option \<Rightarrow> nat \<Rightarrow> chat_message" where
  "set_reaction m uid emoji now =
     m\<lparr>reactions := filter (\<lambda>r. r_userId r \<noteq> uid) (reactions m) @
                     [\<lparr>r_emoji = emoji, r_userId = uid, r_createdAt = now\<rparr>]\<rparr>"

definition addReaction ::
  "server \<Rightarrow> string \<Rightarrow> nat \<Rightarrow> string option \<Rightarrow> nat \<Rightarrow> server \<times> emission list" where
  "addReaction st sid messageId emoji now =
     (case s_userId (sockets st sid) of
        None \<Rightarrow> (st, [socket_emit sid (ChatError ''Please login to add reactions'')])
      | Some uid \<Rightarrow>
          if \<not> db_ok st then (db_next st, [socket_emit sid (ChatError ''Failed to add reaction'')])
          else
            (case findById (db st) messageId of
               None \<Rightarrow> (db_next st, [socket_emit sid (ChatError ''Message not found'')])
             | Some m \<Rightarrow>
                 (let m' = set_reaction m uid emoji now; st1 = db_next st
                  in if \<not> db_ok st1 then
                       (db_next st1, [socket_emit sid (ChatError ''Failed to add reaction'')])
                     else
                       (let st2 = (db_next st1)\<lparr>db := save_doc m' (db st1)\<rparr>
                        in (st2, [io_to st2 (''asteroid:'' @ asteroidId m')
                                    (ReactionUpdated messageId (reactions m'))])))))"

definition mark_deleted :: "chat_message \<Rightarrow> nat \<Rightarrow> chat_message" where
  "mark_deleted m now = m\<lparr>deleted := True, deletedAt := Some now\<rparr>"

definition deleteMessage :: "server \<Rightarrow> string \<Rightarrow> nat \<Rightarrow> nat \<Rightarrow> server \<times> emission list" where
  "deleteMessage st sid messageId now =
     (case s_userId (sockets st sid) of
        None \<Rightarrow> (st, [socket_emit sid (ChatError ''Please login to delete messages'')])
      | Some uid \<Rightarrow>
          if \<not> db_ok st then (db_next st, [socket_emit sid (ChatError ''Failed to delete message'')])
          else
            (case findById (db st) messageId of
               None \<Rightarrow> (db_next st, [socket_emit sid (ChatError ''Message not found'')])
             | Some m \<Rightarrow>
                 if userId m \<noteq> uid then
                   (db_next st, [socket_emit sid (ChatError ''You can only delete your own messages'')])
                 else
                   (let m' = mark_deleted m now; st1 = db_next st
                    in if \<not> db_ok st1 then
                         (db_next st1, [socket_emit sid (ChatError ''Failed to delete message'')])
                       else
                         (let st2 = (db_next st1)\<lparr>db := save_doc m' (db st1)\<rparr>
                          in (st2, [io_to st2 (''asteroid:'' @ asteroidId m')
                                      (MessageDeleted messageId (s_username (sockets st sid)))])))))"

section \<open>REST routes\<close>

record rest_user =
  u_id :: string
  u_username :: string
  u_avatar :: "string option"

datatype rest_response =
    Messages nat "chat_message list"
  | Created chat_message
  | Deleted
  | Count nat
  | Reactions "reaction list"
  | Failure nat string

text \<open>
  Modelled from the spec: \<open>middleware/auth.js\<close> is not among the sources. A request whose
  credential verifies reaches the route with \<open>req.user\<close> set; a request of an anonymous
  identity is answered with the error AuthRequired and the route does not run.
\<close>

definition auth ::
  "rest_user option \<Rightarrow> server \<Rightarrow> (rest_user \<Rightarrow> server \<times> rest_response) \<Rightarrow> server \<times> rest_response" where
  "auth cred st route =
     (case cred of None \<Rightarrow> (st, Failure 401 ''AuthRequired'') | Some u \<Rightarrow> route u)"

text \<open>
  The query parameter \<open>before\<close>: absent (or empty), a text that \<open>new Date\<close> reads as a point
  in time, or a text it reads as an invalid date, on which the query throws.
\<close>

datatype before_param = NoBefore | Before nat | BeforeInvalid

text \<open>
  GET \<open>/:asteroidId/messages\<close>. The parameter \<open>limit\<close> is the value of \<open>parseInt(limit)\<close>
  when the client supplies a number and 50 when it supplies nothing; a limit that does not
  parse is not modelled. The query fails on an invalid date before it reaches the database.
  \<open>populate\<close> replaces references by documents for display and is left out here and in
  \<open>getChatHistory\<close>.
\<close>

definition get_messages ::
  "server \<Rightarrow> string \<Rightarrow> int option \<Rightarrow> before_param \<Rightarrow> server \<times> rest_response" where
  "get_messages st aid limit before =
     (let n = (case limit of None \<Rightarrow> 50 | Some l \<Rightarrow> l) in
      if before = BeforeInvalid then (st, Failure 500 ''Failed to fetch messages'')
      else if \<not> db_ok st then (db_next st, Failure 500 ''Failed to fetch messages'')
      else
        (let messages = limit_docs n (sort_desc (filter
               (history_query aid (case before of Before d \<Rightarrow> Some d | _ \<Rightarrow> None)) (db st)))
         in (db_next st, Messages (length messages) (rev messages))))"

text \<open>
  POST \<open>/:asteroidId/messages\<close>, behind \<open>auth\<close>. \<open>Asteroid.findById\<close> casts the id before
  it calls the database: on an id that is not an ObjectId (24 hexadecimal digits) it throws
  and the route answers 500 without a database call. Asteroids are stored under ObjectIds,
  so the cast fails only on an id under which nothing is stored.
\<close>

definition isHexDigit :: "char \<Rightarrow> bool" where
  "isHexDigit c \<longleftrightarrow> c \<in> set ''0123456789abcdefABCDEF''"

definition isObjectId :: "string \<Rightarrow> bool" where
  "isObjectId s \<longleftrightarrow> length s = 24 \<and> list_all isHexDigit s"

definition post_message_route ::
  "server \<Rightarrow> string \<Rightarrow> jsstring option \<Rightarrow> nat option \<Rightarrow> nat \<Rightarrow> rest_user \<Rightarrow> server \<times> rest_response" where
  "post_message_route st aid body reply now user =
     (if falsy body \<or> length (trim (str body)) = 0 then
        (st, Failure 400 ''Message cannot be empty'')
      else if length (str body) > 2000 then
        (st, Failure 400 ''Message too long (max 2000 characters)'')
      else if \<not> isObjectId aid \<and> asteroids st aid = None then
        (st, Failure 500 ''Failed to send message'')
      else if \<not> db_ok st then (db_next st, Failure 500 ''Failed to send message'')
      else case asteroids st aid of
        None \<Rightarrow> (db_next st, Failure 404 ''Asteroid not found'')
      | Some a \<Rightarrow>
          (let st1 = db_next st;
               chatMessage = new_message (next_id st1) now aid (a_neoReferenceId a) (a_name a)
                  (u_id user) (u_username user) (u_avatar user) (trim (str body)) reply
           in if \<not> db_ok st1 then (db_next st1, Failure 500 ''Failed to send message'')
              else
                (let st2 = insert_doc (db_next st1) chatMessage
                 in if \<not> db_ok st2 then (db_next st2, Failure 500 ''Failed to send message'')
                    else (db_next st2, Created chatMessage))))"

definition post_message ::
  "server \<Rightarrow> rest_user option \<Rightarrow> string \<Rightarrow> jsstring option \<Rightarrow> nat option \<Rightarrow> nat \<Rightarrow>
   server \<times> rest_response" where
  "post_message st cred aid body reply now = auth cred st (post_message_route st aid body reply now)"

text \<open>DELETE \<open>/messages/:messageId\<close>, behind \<open>auth\<close>.\<close>

definition delete_message_route ::
  "server \<Rightarrow> nat \<Rightarrow> nat \<Rightarrow> rest_user \<Rightarrow> server \<times> rest_response" where
  "delete_message_route st messageId now user =
     (if \<not> db_ok st then (db_next st, Failure 500 ''Failed to delete message'')
      else case findById (db st) messageId of
        None \<Rightarrow> (db_next st, Failure 404 ''Message not found'')
      | Some m \<Rightarrow>
          if userId m \<noteq> u_id user then
            (db_next st, Failure 403 ''You can only delete your own messages'')
          else
            (let m' = mark_deleted m now; st1 = db_next st
             in if \<not> db_ok st1 then (db_next st1, Failure 500 ''Failed to delete message'')
                else ((db_next st1)\<lparr>db := save_doc m' (db st1)\<rparr>, Deleted)))"

definition delete_message ::
  "server \<Rightarrow> rest_user option \<Rightarrow> nat \<Rightarrow> nat \<Rightarrow> server \<times> rest_response" where
  "delete_message st cred messageId now = auth cred st (delete_message_route st messageId now)"

text \<open>GET \<open>/:asteroidId/count\<close>.\<close>

definition get_count :: "server \<Rightarrow> string \<Rightarrow> server \<times> rest_response" where
  "get_count st aid =
     (if db_ok st then (db_next st, Count (getMessageCount (db st) aid))
      else (db_next st, Failure 500 ''Failed to fetch message count''))"

text \<open>POST \<open>/messages/:messageId/reactions\<close>, behind \<open>auth\<close>.\<close>

definition post_reaction_route ::
  "server \<Rightarrow> nat \<Rightarrow> string option \<Rightarrow> nat \<Rightarrow> rest_user \<Rightarrow> server \<times> rest_response" where
  "post_reaction_route st messageId emoji now user =
     (if falsy emoji then (st, Failure 400 ''Emoji is required'')
      else if \<not> db_ok st then (db_next st, Failure 500 ''Failed to add reaction'')
      else case findById (db st) messageId of
        None \<Rightarrow> (db_next st, Failure 404 ''Message not found'')
      | Some m \<Rightarrow>
          (let m' = set_reaction m (u_id user) emoji now; st1 = db_next st
           in if \<not> db_ok st1 then (db_next st1, Failure 500 ''Failed to add reaction'')
              else ((db_next st1)\<lparr>db := save_doc m' (db st1)\<rparr>, Reactions (reactions m'))))"

definition post_reaction ::
  "server \<Rightarrow> rest_user option \<Rightarrow> nat \<Rightarrow> string option \<Rightarrow> nat \<Rightarrow> server \<times> rest_response" where
  "post_reaction st cred messageId emoji now = auth cred st (post_reaction_route st messageId emoji now)"

section \<open>Sequences of requests\<close>

text \<open>
  The requests a server can receive, over the socket and over REST, and the state each
  leaves behind. A handler runs to completion before the next request is taken.
\<close>

datatype request =
    Connect string "string option" string "string option"
  | JoinAsteroid string string
  | LeaveAsteroid string
  | Disconnect string
  | SendMessage string send_data nat
  | Typing string
  | StopTyping string
  | AddReaction string nat "string option" nat
  | DeleteMessage string nat nat
  | GetMessages string "int option" before_param
  | PostMessage "rest_user option" string "jsstring option" "nat option" nat
  | DeleteRest "rest_user option" nat nat
  | GetCount string
  | PostReaction "rest_user option" nat "string option" nat

fun step :: "server \<Rightarrow> request \<Rightarrow> server" where
  "step st (Connect sid uid name avatar) = connection st sid uid name avatar"
| "step st (JoinAsteroid sid aid) = fst (joinAsteroid st sid aid)"
| "step st (LeaveAsteroid sid) = fst (leaveAsteroid st sid)"
| "step st (Disconnect sid) = fst (disconnect st sid)"
| "step st (SendMessage sid data now) = fst (sendMessage st sid data now)"
| "step st (Typing sid) = st"
| "step st (StopTyping sid) = st"
| "step st (AddReaction sid i emoji now) = fst (addReaction st sid i emoji now)"
| "step st (DeleteMessage sid i now) = fst (deleteMessage st sid i now)"
| "step st (GetMessages aid limit before) = fst (get_messages st aid limit before)"
| "step st (PostMessage cred aid body reply now) = fst (post_message st cred aid body reply now)"
| "step st (DeleteRest cred i now) = fst (delete_message st cred i now)"
| "step st (GetCount aid) = fst (get_count st aid)"
| "step st (PostReaction cred i emoji now) = fst (post_reaction st cred i emoji now)"

definition run :: "server \<Rightarrow> request list \<Rightarrow> server" where
  "run st reqs = foldl step st reqs"

text \<open>The server at start: nobody connected, no room, an empty collection.\<close>

definition guest :: socket where
  "guest = \<lparr>s_userId = None, s_username = ''Guest'', s_userAvatar = None,
            currentAsteroid = None, currentRoom = None\<rparr>"

definition init :: "(string \<Rightarrow> asteroid option) \<Rightarrow> bool list \<Rightarrow> server" where
  "init known fs =
     \<lparr>sockets = (\<lambda>sid. guest), rooms = (\<lambda>room. {}), db = [], asteroids = known,
      next_id = 0, faults = fs\<rparr>"

text \<open>Message ids are unique and below the next fresh id.\<close>

definition wf_store :: "server \<Rightarrow> bool" where
  "wf_store st \<longleftrightarrow>
     distinct (map msg_id (db st)) \<and> list_all (\<lambda>m. msg_id m < next_id st) (db st)"

text \<open>No user has two reactions on one message.\<close>

definition one_reaction_per_user :: "chat_message \<Rightarrow> bool" where
  "one_reaction_per_user m \<longleftrightarrow> distinct (map r_userId (reactions m))"

text \<open>A connection is a member of at most one asteroid room.\<close>

definition single_room :: "server \<Rightarrow> bool" where
  "single_room st \<longleftrightarrow>
     (\<forall>sid r1 r2. sid \<in> rooms st r1 \<and> startsWith r1 ''asteroid:'' \<and>
                  sid \<in> rooms st r2 \<and> startsWith r2 ''asteroid:'' \<longrightarrow> r1 = r2)"

text \<open>
  What one request can do to the collection: nothing, append a fresh message, or write one
  stored message back with a reaction set or with the deletion mark.
\<close>

inductive db_change :: "server \<Rightarrow> server \<Rightarrow> bool" where
  unchanged: "db st' = db st \<Longrightarrow> next_id st' = next_id st \<Longrightarrow> db_change st st'"
| appended: "db st' = db st @ [m] \<Longrightarrow> msg_id m = next_id st \<Longrightarrow>
     next_id st' = Suc (next_id st) \<Longrightarrow> reactions m = [] \<Longrightarrow> \<not> deleted m \<Longrightarrow>
     db_change st st'"
| reacted: "findById (db st) i = Some m \<Longrightarrow>
     db st' = save_doc (set_reaction m u e t) (db st) \<Longrightarrow> next_id st' = next_id st \<Longrightarrow>
     db_change st st'"
| marked: "findById (db st) i = Some m \<Longrightarrow>
     db st' = save_doc (mark_deleted m t) (db st) \<Longrightarrow> next_id st' = next_id st \<Longrightarrow>
     db_change st st'"

section \<open>Observations\<close>

text \<open>The messages of a REST answer are at most \<open>k\<close>.\<close>

definition bounded_by :: "nat \<Rightarrow> rest_response \<Rightarrow> bool" where
  "bounded_by k r = (case r of Messages n h \<Rightarrow> length h \<le> k | _ \<Rightarrow> True)"

text \<open>The id \<open>i\<close> has been given out and every stored message with this id is deleted.\<close>

definition removed :: "server \<Rightarrow> nat \<Rightarrow> bool" where
  "removed st i \<longleftrightarrow> i < next_id st \<and> list_all (\<lambda>m. msg_id m = i \<longrightarrow> deleted m) (db st)"

text \<open>One of the emissions is an error event.\<close>

definition surfaced :: "emission list \<Rightarrow> bool" where
  "surfaced ems = list_ex (\<lambda>em. case snd em of ChatError text \<Rightarrow> True | _ \<Rightarrow> False) ems"

definition typing_event :: "event \<Rightarrow> bool" where
  "typing_event e =
     (case e of UserTyping name a \<Rightarrow> True | UserStoppedTyping name a \<Rightarrow> True | _ \<Rightarrow> False)"

section \<open>Example data\<close>

text \<open>
  A small server for the examples: the connections \<open>A\<close> (alice, user \<open>u1\<close>), \<open>B\<close> (bob,
  user \<open>u2\<close>) and the guest \<open>G\<close> are in the room of asteroid \<open>x\<close>; two messages are
  stored, the text \<open>hello\<close> by alice and by bob. One asteroid is stored, under the id
  \<open>ceres\<close>.
\<close>

definition ceres :: string where
  "ceres = ''64b7f0c2a1d3e4f5a6b7c8d9''"

definition hello :: jsstring where
  "hello = [0x68, 0x65, 0x6C, 0x6C, 0x6F]"

definition alice :: socket where
  "alice = \<lparr>s_userId = Some ''u1'', s_username = ''alice'', s_userAvatar = None,
            currentAsteroid = Some ''x'', currentRoom = Some ''asteroid:x''\<rparr>"

definition bob :: socket where
  "bob = \<lparr>s_userId = Some ''u2'', s_username = ''bob'', s_userAvatar = None,
          currentAsteroid = Some ''x'', currentRoom = Some ''asteroid:x''\<rparr>"

definition visitor :: socket where
  "visitor = \<lparr>s_userId = None, s_username = ''Guest'', s_userAvatar = None,
              currentAsteroid = Some ''x'', currentRoom = Some ''asteroid:x''\<rparr>"

definition msg0 :: chat_message where
  "msg0 = new_message 0 10 ''x'' ''n1'' ''X'' ''u1'' ''alice'' None hello None"

definition msg1 :: chat_message where
  "msg1 = new_message 1 20 ''x'' ''n1'' ''X'' ''u2'' ''bob'' None hello None"

definition demo :: server where
  "demo =
     \<lparr>sockets = (\<lambda>sid. if sid = ''A'' then alice else if sid = ''B'' then bob
                        else if sid = ''G'' then visitor else guest),
      rooms = (\<lambda>room. if room = ''asteroid:x'' then {''A'', ''B'', ''G''}
                        else if room = ''A'' then {''A''} else if room = ''B'' then {''B''}
                        else if room = ''G'' then {''G''} else {}),
      db = [msg0, msg1],
      asteroids = [ceres \<mapsto> \<lparr>a_neoReferenceId = ''n1'', a_name = ''X''\<rparr>],
      next_id = 2, faults = []\<rparr>"

text \<open>Two users of the REST routes; \<open>robert\<close> is bob's account.\<close>

definition carol :: rest_user where
  "carol = \<lparr>u_id = ''u3'', u_username = ''carol'', u_avatar = None\<rparr>"

definition robert :: rest_user where
  "robert = \<lparr>u_id = ''u2'', u_username = ''bob'', u_avatar = None\<rparr>"

text \<open>Four reaction requests on message 0, two of them by alice.\<close>

definition react3 :: "request list" where
  "react3 = [AddReaction ''A'' 0 (Some ''rocket'') 30, AddReaction ''B'' 0 (Some ''star'') 31,
             PostReaction (Some carol) 0 (Some ''moon'') 32, AddReaction ''A'' 0 (Some ''fire'') 33]"

text \<open>A topic with 51 messages.\<close>

definition flood :: server where
  "flood = (init Map.empty [])
     \<lparr>db := map (\<lambda>k. new_message k k ''x'' ''n1'' ''X'' ''u1'' ''alice'' None hello None) [0..<51],
      next_id := 51\<rparr>"

text \<open>The example server with two more messages: one deleted by bob, one of type system.\<close>

definition msg2 :: chat_message where
  "msg2 = (new_message 2 30 ''x'' ''n1'' ''X'' ''u2'' ''bob'' None hello None)
            \<lparr>deleted := True, deletedAt := Some 35\<rparr>"

definition msg3 :: chat_message where
  "msg3 = (new_message 3 40 ''x'' ''n1'' ''X'' ''u1'' ''alice'' None hello None)
            \<lparr>messageType := System\<rparr>"

definition archive :: server where
  "archive = demo\<lparr>db := [msg0, msg1, msg2, msg3], next_id := 4\<rparr>"

text \<open>Two connections join the room of asteroid \<open>x\<close> on a fresh server.\<close>

definition two_joined :: server where
  "two_joined = run (init Map.empty [])
     [Connect ''A'' (Some ''u1'') ''alice'' None, Connect ''B'' (Some ''u2'') ''bob'' None,
      JoinAsteroid ''A'' ''x'', JoinAsteroid ''B'' ''x'']"

text \<open>A send request with the text \<open>hello\<close> between white space.\<close>

definition greeting :: send_data where
  "greeting = \<lparr>sd_asteroidId = Some ''x'', sd_neoReferenceId = Some ''n1'',
      sd_asteroidName = Some ''X'', sd_message = Some ([0x20] @ hello @ [0x20, 0xA]),
      sd_replyTo = None\<rparr>"

text \<open>
  The example server with a database whose next call fails and the one after succeeds,
  and with one whose next call succeeds and the one after fails.
\<close>

definition flaky :: server where
  "flaky = demo\<lparr>faults := [False, True]\<rparr>"

definition flaky_save :: server where
  "flaky_save = demo\<lparr>faults := [True, False]\<rparr>"

text \<open>The example server with a second room, of asteroid \<open>y\<close>, that holds a connection \<open>C\<close>.\<close>

definition two_rooms :: server where
  "two_rooms = demo\<lparr>rooms := (\<lambda>room. if room = ''asteroid:x'' then {''A'', ''B'', ''G''}
                                   else if room = ''asteroid:y'' then {''C''} else {})\<rparr>"

section \<open>Basic facts\<close>

lemma trim_rev_fix: "dropWhile isWhiteSpace (rev (trim s)) = rev (trim s)"
  by (simp add: trim_def)

lemma dropWhile_take_fix:
  "u = [] \<or> \<not> P (hd u) \<Longrightarrow> dropWhile P (take k u) = take k u"
  by (cases u; cases k) auto

lemma trim_prefix: "\<exists>k. rev (dropWhile P (rev u)) = take k u"
  by (metis dropWhile_eq_drop rev_drop rev_rev_ident length_rev)

lemma trim_trim: "trim (trim s) = trim s"
proof -
  let ?u = "dropWhile isWhiteSpace s"
  obtain k where k: "trim s = take k ?u"
    unfolding trim_def using trim_prefix by blast
  have "?u = [] \<or> \<not> isWhiteSpace (hd ?u)"
    using hd_dropWhile by blast
  then have "dropWhile isWhiteSpace (trim s) = trim s"
    unfolding k by (rule dropWhile_take_fix)
  then show ?thesis
    using trim_rev_fix [of s] by (simp add: trim_def)
qed

lemma length_trim: "length (trim s) \<le> length s"
  unfolding trim_def
  by (metis length_rev length_dropWhile_le le_trans)

lemma findById_id: "findById coll i = Some m \<Longrightarrow> msg_id m = i"
  unfolding findById_def by (induction coll) (auto split: if_splits)

lemma findById_mem: "findById coll i = Some m \<Longrightarrow> m \<in> set coll"
  unfolding findById_def by (induction coll) (auto split: if_splits)

lemma findById_save_doc:
  "findById coll (msg_id d) = Some m \<Longrightarrow> findById (save_doc d coll) (msg_id d) = Some d"
  unfolding findById_def by (induction coll) (auto split: if_splits)

lemma findById_save_doc_other:
  "i \<noteq> msg_id d \<Longrightarrow> findById (save_doc d coll) i = findById coll i"
  unfolding findById_def by (induction coll) (auto split: if_splits)

lemma map_id_save_doc: "map msg_id (save_doc d coll) = map msg_id coll"
  by (induction coll) auto

lemma set_save_doc: "set (save_doc d coll) \<subseteq> insert d (set coll)"
  by (induction coll) auto

lemma set_limit_docs: "set (limit_docs n xs) \<subseteq> set xs"
  by (auto simp: limit_docs_def dest: in_set_takeD)

lemma set_sort_desc: "set (sort_desc xs) = set xs"
  by (simp add: sort_desc_def)

lemma length_limit_docs: "n \<noteq> 0 \<Longrightarrow> length (limit_docs n xs) \<le> nat \<bar>n\<bar>"
  by (simp add: limit_docs_def)

lemma sorted_rev_limit:
  "sorted (map createdAt (rev (limit_docs n (sort_desc xs))))"
proof -
  let ?ys = "sort_key createdAt xs"
  have s: "sorted (map createdAt ?ys)" by (rule sorted_sort_key)
  show ?thesis
  proof (cases "n = 0")
    case True
    then show ?thesis using s by (simp add: limit_docs_def sort_desc_def)
  next
    case False
    have "rev (take (nat \<bar>n\<bar>) (rev ?ys)) = drop (length ?ys - nat \<bar>n\<bar>) ?ys"
      by (simp add: rev_take)
    then have "map createdAt (rev (limit_docs n (sort_desc xs)))
                 = drop (length ?ys - nat \<bar>n\<bar>) (map createdAt ?ys)"
      using False by (simp add: limit_docs_def sort_desc_def drop_map)
    then show ?thesis using s by (simp add: sorted_wrt_drop)
  qed
qed

lemma getChatHistory_mem:
  "m \<in> set (getChatHistory coll aid n b) \<Longrightarrow> m \<in> set coll \<and> history_query aid b m"
  unfolding getChatHistory_def using set_limit_docs [of n] by (fastforce simp: set_sort_desc)

subsection \<open>The effect of a request on the collection\<close>


lemma db_next_simps [simp]:
  "db (db_next st) = db st" "next_id (db_next st) = next_id st"
  "rooms (db_next st) = rooms st" "sockets (db_next st) = sockets st"
  "asteroids (db_next st) = asteroids st" "faults (db_next st) = tl (faults st)"
  by (simp_all add: db_next_def)

lemma change_connection: "db_change st (connection st sid uid name avatar)"
  by (rule db_change.unchanged) (simp_all add: connection_def socket_join_def)

lemma change_joinAsteroid: "db_change st (fst (joinAsteroid st sid aid))"
  by (rule db_change.unchanged)
     (simp_all add: joinAsteroid_def Let_def set_current_def socket_join_def leave_previous_def)

lemma change_leaveAsteroid: "db_change st (fst (leaveAsteroid st sid))"
  by (rule db_change.unchanged)
     (simp_all add: leaveAsteroid_def set_current_def socket_leave_def split: option.splits)

lemma change_disconnect: "db_change st (fst (disconnect st sid))"
  by (rule db_change.unchanged)
     (simp_all add: disconnect_def Let_def leave_all_def split: option.splits)

lemma new_message_fresh [simp]:
  "msg_id (new_message i now aid neo aname uid uname avatar body reply) = i"
  "reactions (new_message i now aid neo aname uid uname avatar body reply) = []"
  "deleted (new_message i now aid neo aname uid uname avatar body reply) = False"
  by (simp_all add: new_message_def)

lemma change_insert_doc:
  "db_change st (insert_doc (db_next st) (new_message (next_id st) now aid neo aname uid uname avatar body reply))"
  by (rule db_change.appended [where m = "new_message (next_id st) now aid neo aname uid uname avatar body reply"])
     (simp_all add: insert_doc_def)

lemma change_db_next: "db_change st (db_next st)"
  by (rule db_change.unchanged) simp_all

lemma change_refl: "db_change st st"
  by (rule db_change.unchanged) simp_all

lemma change_sendMessage: "db_change st (fst (sendMessage st sid data now))"
  by (simp add: sendMessage_def Let_def change_refl change_db_next change_insert_doc
        split: option.splits)

lemma change_set_reaction:
  "findById (db st) i = Some m \<Longrightarrow>
   db_change st ((db_next (db_next st))\<lparr>db := save_doc (set_reaction m u e t) (db st)\<rparr>)"
  by (rule db_change.reacted [where m = m and i = i]) simp_all

lemma change_mark_deleted:
  "findById (db st) i = Some m \<Longrightarrow>
   db_change st ((db_next (db_next st))\<lparr>db := save_doc (mark_deleted m t) (db st)\<rparr>)"
  by (rule db_change.marked [where m = m and i = i]) simp_all

lemma change_db_next2: "db_change st (db_next (db_next st))"
  by (rule db_change.unchanged) simp_all

lemma change_db_next3: "db_change st (db_next (db_next (db_next st)))"
  by (rule db_change.unchanged) simp_all

lemmas change_intros = change_refl change_db_next change_db_next2 change_db_next3
  change_set_reaction change_mark_deleted

lemma change_addReaction: "db_change st (fst (addReaction st sid i emoji now))"
  by (auto simp: addReaction_def Let_def split: option.splits intro: change_intros)

lemma change_deleteMessage: "db_change st (fst (deleteMessage st sid i now))"
  by (auto simp: deleteMessage_def Let_def split: option.splits intro: change_intros)

lemma change_get_messages: "db_change st (fst (get_messages st aid limit before))"
  by (auto simp: get_messages_def Let_def intro: change_intros)

lemma change_get_count: "db_change st (fst (get_count st aid))"
  by (auto simp: get_count_def intro: change_intros)

lemma change_insert_doc2:
  "db_change st (insert_doc (db_next (db_next st)) (new_message (next_id st) now aid neo aname uid uname avatar body reply))"
  by (rule db_change.appended [where m = "new_message (next_id st) now aid neo aname uid uname avatar body reply"])
     (simp_all add: insert_doc_def)

lemma change_insert_doc3:
  "db_change st (db_next (insert_doc (db_next (db_next st)) (new_message (next_id st) now aid neo aname uid uname avatar body reply)))"
  by (rule db_change.appended [where m = "new_message (next_id st) now aid neo aname uid uname avatar body reply"])
     (simp_all add: insert_doc_def)

lemma change_post_message: "db_change st (fst (post_message st cred aid body reply now))"
  by (auto simp: post_message_def auth_def post_message_route_def Let_def
        split: option.splits intro: change_intros change_insert_doc2 change_insert_doc3)

lemma change_delete_message: "db_change st (fst (delete_message st cred i now))"
  by (auto simp: delete_message_def auth_def delete_message_route_def Let_def
        split: option.splits intro: change_intros)

lemma change_post_reaction: "db_change st (fst (post_reaction st cred i emoji now))"
  by (auto simp: post_reaction_def auth_def post_reaction_route_def Let_def
        split: option.splits intro: change_intros)

lemma change_step: "db_change st (step st r)"
  by (cases r)
     (simp_all add: change_connection change_joinAsteroid change_leaveAsteroid change_disconnect
        change_sendMessage change_addReaction change_deleteMessage change_get_messages
        change_post_message change_delete_message change_get_count change_post_reaction change_refl)

subsection \<open>Invariants of the collection\<close>

lemma set_reaction_fields [simp]:
  "msg_id (set_reaction m u e t) = msg_id m"
  "deleted (set_reaction m u e t) = deleted m"
  "asteroidId (set_reaction m u e t) = asteroidId m"
  "userId (set_reaction m u e t) = userId m"
  by (simp_all add: set_reaction_def)

lemma mark_deleted_fields [simp]:
  "msg_id (mark_deleted m t) = msg_id m"
  "deleted (mark_deleted m t) = True"
  "deletedAt (mark_deleted m t) = Some t"
  "reactions (mark_deleted m t) = reactions m"
  "asteroidId (mark_deleted m t) = asteroidId m"
  "userId (mark_deleted m t) = userId m"
  by (simp_all add: mark_deleted_def)

lemma list_all_save_doc: "list_all P coll \<Longrightarrow> P d \<Longrightarrow> list_all P (save_doc d coll)"
  by (induction coll) auto

lemma wf_store_change:
  assumes "db_change st st'" and "wf_store st"
  shows "wf_store st'"
  using assms
proof (induction rule: db_change.induct)
  case (appended st' st m)
  then show ?case
    by (auto simp: wf_store_def list_all_iff intro: less_SucI)
next
  case (reacted st i m st' u e t)
  then have "msg_id (set_reaction m u e t) < next_id st"
    by (auto simp: wf_store_def list_all_iff dest: findById_mem)
  then show ?case
    using reacted by (simp add: wf_store_def map_id_save_doc list_all_save_doc)
next
  case (marked st i m st' t)
  then have "msg_id (mark_deleted m t) < next_id st"
    by (auto simp: wf_store_def list_all_iff dest: findById_mem)
  then show ?case
    using marked by (simp add: wf_store_def map_id_save_doc list_all_save_doc)
qed (simp add: wf_store_def)

lemma one_reaction_set_reaction: "one_reaction_per_user (set_reaction m u e t)"
  if "one_reaction_per_user m"
  using that by (auto simp: one_reaction_per_user_def set_reaction_def distinct_map_filter)

lemma reactions_of_user_set_reaction:
  "filter (\<lambda>r. r_userId r = u) (reactions (set_reaction m u e t)) =
     [\<lparr>r_emoji = e, r_userId = u, r_createdAt = t\<rparr>]"
  by (simp add: set_reaction_def filter_empty_conv)

lemma one_reaction_change:
  assumes "db_change st st'" and "list_all one_reaction_per_user (db st)"
  shows "list_all one_reaction_per_user (db st')"
  using assms
proof (induction rule: db_change.induct)
  case (appended st' st m)
  then show ?case by (simp add: one_reaction_per_user_def)
next
  case (reacted st i m st' u e t)
  then have "one_reaction_per_user (set_reaction m u e t)"
    by (auto simp: list_all_iff dest: findById_mem intro: one_reaction_set_reaction)
  then show ?case
    using reacted by (simp add: list_all_save_doc)
next
  case (marked st i m st' t)
  then have "one_reaction_per_user (mark_deleted m t)"
    by (auto simp: list_all_iff one_reaction_per_user_def dest: findById_mem)
  then show ?case
    using marked by (simp add: list_all_save_doc)
qed simp

lemma wf_store_run: "wf_store st \<Longrightarrow> wf_store (run st reqs)"
  unfolding run_def
  by (induction reqs arbitrary: st) (auto intro: wf_store_change change_step)

lemma one_reaction_run:
  "list_all one_reaction_per_user (db st) \<Longrightarrow> list_all one_reaction_per_user (db (run st reqs))"
  unfolding run_def
  by (induction reqs arbitrary: st) (auto intro: one_reaction_change change_step)

lemma wf_store_init: "wf_store (init known fs)"
  by (simp add: wf_store_def init_def)

lemma one_reaction_init: "list_all one_reaction_per_user (db (init known fs))"
  by (simp add: init_def)

lemma distinct_count_le_one:
  "distinct (map f xs) \<Longrightarrow> length (filter (\<lambda>x. f x = u) xs) \<le> 1"
  by (induction xs) (auto simp: filter_empty_conv image_iff)

lemmas demo_defs = demo_def alice_def bob_def visitor_def guest_def msg0_def msg1_def msg2_def
  msg3_def hello_def carol_def new_message_def

section \<open>Reactions\<close>

text \<open>
  Claim C1. A message never holds two reactions of one user: if no stored message does, none
  does after any sequence of requests (a new message has no reactions, so this holds from
  the empty collection on). When a user sets a reaction twice on the same message, over the
  socket or over REST, the stored message holds exactly one reaction of that user
  afterwards, the one with the second emoji.
\<close>

theorem reactions_one_per_user:
  "(list_all one_reaction_per_user (db st) \<longrightarrow>
      (\<forall>m \<in> set (db (run st reqs)). \<forall>u. length (filter (\<lambda>r. r_userId r = u) (reactions m)) \<le> 1))
   \<and> (s_userId (sockets st sid) = Some u \<and> findById (db st) i = Some m \<and> faults st = [] \<longrightarrow>
        (\<exists>m'. findById (db (fst (addReaction (fst (addReaction st sid i e1 t1)) sid i e2 t2))) i = Some m'
           \<and> filter (\<lambda>r. r_userId r = u) (reactions m') = [\<lparr>r_emoji = e2, r_userId = u, r_createdAt = t2\<rparr>]))
   \<and> (findById (db st) i = Some m \<and> faults st = [] \<and> \<not> falsy e1 \<and> \<not> falsy e2 \<longrightarrow>
        (\<exists>m'. findById (db (fst (post_reaction (fst (post_reaction st (Some user) i e1 t1)) (Some user) i e2 t2))) i = Some m'
           \<and> filter (\<lambda>r. r_userId r = u_id user) (reactions m') = [\<lparr>r_emoji = e2, r_userId = u_id user, r_createdAt = t2\<rparr>]))"
proof (intro conjI impI)
  assume "list_all one_reaction_per_user (db st)"
  then have "list_all one_reaction_per_user (db (run st reqs))"
    by (rule one_reaction_run)
  then have d: "\<forall>m \<in> set (db (run st reqs)). distinct (map r_userId (reactions m))"
    by (simp add: list_all_iff one_reaction_per_user_def)
  show "\<forall>m \<in> set (db (run st reqs)). \<forall>u. length (filter (\<lambda>r. r_userId r = u) (reactions m)) \<le> 1"
  proof (intro ballI allI)
    fix m u
    assume "m \<in> set (db (run st reqs))"
    with d have "distinct (map r_userId (reactions m))" by blast
    then show "length (filter (\<lambda>r. r_userId r = u) (reactions m)) \<le> 1"
      by (rule distinct_count_le_one)
  qed
next
  assume a: "s_userId (sockets st sid) = Some u \<and> findById (db st) i = Some m \<and> faults st = []"
  then have i: "msg_id m = i" by (auto dest: findById_id)
  let ?m1 = "set_reaction m u e1 t1"
  have s1: "fst (addReaction st sid i e1 t1) = (db_next (db_next st))\<lparr>db := save_doc ?m1 (db st)\<rparr>"
    using a by (simp add: addReaction_def Let_def db_ok_def)
  have f1: "findById (save_doc ?m1 (db st)) i = Some ?m1"
    using a i findById_save_doc [of "db st" ?m1 m] by simp
  let ?st1 = "fst (addReaction st sid i e1 t1)"
  let ?m2 = "set_reaction ?m1 u e2 t2"
  have "db (fst (addReaction ?st1 sid i e2 t2)) = save_doc ?m2 (db ?st1)"
    using a f1 unfolding s1 by (simp add: addReaction_def Let_def db_ok_def)
  moreover have "findById (save_doc ?m2 (db ?st1)) i = Some ?m2"
    using f1 i findById_save_doc [of "db ?st1" ?m2 ?m1] unfolding s1 by simp
  ultimately show "\<exists>m'. findById (db (fst (addReaction ?st1 sid i e2 t2))) i = Some m'
           \<and> filter (\<lambda>r. r_userId r = u) (reactions m') = [\<lparr>r_emoji = e2, r_userId = u, r_createdAt = t2\<rparr>]"
    by (simp add: reactions_of_user_set_reaction)
next
  assume a: "findById (db st) i = Some m \<and> faults st = [] \<and> \<not> falsy e1 \<and> \<not> falsy e2"
  then have i: "msg_id m = i" by (auto dest: findById_id)
  let ?u = "u_id user"
  let ?m1 = "set_reaction m ?u e1 t1"
  let ?st1 = "fst (post_reaction st (Some user) i e1 t1)"
  have s1: "?st1 = (db_next (db_next st))\<lparr>db := save_doc ?m1 (db st)\<rparr>"
    using a by (simp add: post_reaction_def auth_def post_reaction_route_def Let_def db_ok_def)
  have f1: "findById (save_doc ?m1 (db st)) i = Some ?m1"
    using a i findById_save_doc [of "db st" ?m1 m] by simp
  let ?m2 = "set_reaction ?m1 ?u e2 t2"
  have "db (fst (post_reaction ?st1 (Some user) i e2 t2)) = save_doc ?m2 (db ?st1)"
    using a f1 unfolding s1
    by (simp add: post_reaction_def auth_def post_reaction_route_def Let_def db_ok_def)
  moreover have "findById (save_doc ?m2 (db ?st1)) i = Some ?m2"
    using f1 i findById_save_doc [of "db ?st1" ?m2 ?m1] unfolding s1 by simp
  ultimately show "\<exists>m'. findById (db (fst (post_reaction ?st1 (Some user) i e2 t2))) i = Some m'
           \<and> filter (\<lambda>r. r_userId r = ?u) (reactions m') = [\<lparr>r_emoji = e2, r_userId = ?u, r_createdAt = t2\<rparr>]"
    by (simp add: reactions_of_user_set_reaction)
qed

lemmas eval_defs = run_def addReaction_def post_reaction_def post_reaction_route_def auth_def
  set_reaction_def findById_def db_ok_def db_next_def io_to_def socket_emit_def falsy_def
  one_reaction_per_user_def Let_def

lemma react3_db:
  "db (run demo react3) =
     [msg0\<lparr>reactions := [\<lparr>r_emoji = Some ''star'', r_userId = ''u2'', r_createdAt = 31\<rparr>,
                          \<lparr>r_emoji = Some ''moon'', r_userId = ''u3'', r_createdAt = 32\<rparr>,
                          \<lparr>r_emoji = Some ''fire'', r_userId = ''u1'', r_createdAt = 33\<rparr>]\<rparr>, msg1]"
  by (simp add: react3_def demo_defs eval_defs)

theorem reactions_one_per_user_witness:
  "list_all one_reaction_per_user (db demo)
   \<and> hd (db (run demo react3)) \<in> set (db (run demo react3))
   \<and> length (filter (\<lambda>r. r_userId r = ''u1'') (reactions (hd (db (run demo react3))))) \<le> 1
   \<and> s_userId (sockets demo ''A'') = Some ''u1'' \<and> findById (db demo) 0 = Some msg0 \<and> faults demo = []
   \<and> (\<exists>m'. findById (db (fst (addReaction (fst (addReaction demo ''A'' 0 (Some ''rocket'') 30)) ''A'' 0 (Some ''fire'') 31))) 0 = Some m'
           \<and> filter (\<lambda>r. r_userId r = ''u1'') (reactions m') = [\<lparr>r_emoji = Some ''fire'', r_userId = ''u1'', r_createdAt = 31\<rparr>])
   \<and> \<not> falsy (Some ''rocket'') \<and> \<not> falsy (Some ''fire'')
   \<and> (\<exists>m'. findById (db (fst (post_reaction (fst (post_reaction demo (Some carol) 0 (Some ''rocket'') 30)) (Some carol) 0 (Some ''fire'') 31))) 0 = Some m'
           \<and> filter (\<lambda>r. r_userId r = u_id carol) (reactions m') = [\<lparr>r_emoji = Some ''fire'', r_userId = u_id carol, r_createdAt = 31\<rparr>])"
proof -
  have h1: "list_all one_reaction_per_user (db demo)"
    by (simp add: demo_defs one_reaction_per_user_def)
  have h2: "hd (db (run demo react3)) \<in> set (db (run demo react3))"
    by (simp add: react3_db)
  have h3: "s_userId (sockets demo ''A'') = Some ''u1'' \<and> findById (db demo) 0 = Some msg0 \<and> faults demo = []"
    by (simp add: demo_defs findById_def)
  have h4: "\<not> falsy (Some ''rocket'') \<and> \<not> falsy (Some ''fire'')"
    by (simp add: falsy_def)
  note t = reactions_one_per_user [where st = demo and reqs = react3 and sid = "''A''" and u = "''u1''"
      and i = 0 and m = msg0 and ?e1.0 = "Some ''rocket''" and ?t1.0 = 30
      and ?e2.0 = "Some ''fire''" and ?t2.0 = 31 and user = carol]
  from t h1 h2 have c1: "length (filter (\<lambda>r. r_userId r = ''u1'') (reactions (hd (db (run demo react3))))) \<le> 1"
    by blast
  from t h3 h4 h1 h2 c1 show ?thesis by blast
qed

section \<open>History\<close>

lemma join_emissions:
  "snd (joinAsteroid st sid aid) =
     [({sid}, ChatHistory (if db_ok st then rev (getChatHistory (db st) aid 50 None) else [])),
      (rooms (leave_previous st sid (''asteroid:'' @ aid)) (''asteroid:'' @ aid) - {sid} , UserJoined (s_username (sockets st sid))),
      (insert sid (rooms (leave_previous st sid (''asteroid:'' @ aid)) (''asteroid:'' @ aid)),
       ActiveUsers (card (insert sid (rooms (leave_previous st sid (''asteroid:'' @ aid)) (''asteroid:'' @ aid)))))]"
  by (simp add: joinAsteroid_def Let_def socket_emit_def socket_to_def io_to_def room_size_def
      set_current_def socket_join_def db_ok_def leave_previous_def)

lemma join_history:
  "(rs, ChatHistory h) \<in> set (snd (joinAsteroid st sid aid)) \<Longrightarrow>
     rs = {sid} \<and> h = (if db_ok st then rev (getChatHistory (db st) aid 50 None) else [])"
  by (simp add: join_emissions)

lemma get_messages_history:
  "snd (get_messages st aid limit before) = Messages n h \<Longrightarrow>
     n = length h \<and>
     h = rev (limit_docs (case limit of None \<Rightarrow> 50 | Some l \<Rightarrow> l) (sort_desc (filter
               (history_query aid (case before of Before d \<Rightarrow> Some d | _ \<Rightarrow> None)) (db st))))"
  by (auto simp: get_messages_def Let_def split: if_splits)

lemma history_query_mem:
  "m \<in> set (rev (limit_docs n (sort_desc (filter (history_query aid b) coll)))) \<Longrightarrow>
     m \<in> set coll \<and> history_query aid b m"
  using getChatHistory_mem [of m coll aid n b] by (simp add: getChatHistory_def)

lemma join_history_props:
  assumes "(rs, ChatHistory h) \<in> set (snd (joinAsteroid st sid aid))"
  shows "rs = {sid}" and "sorted (map createdAt h)"
    and "\<forall>m\<in>set h. m \<in> set (db st) \<and> asteroidId m = aid \<and> \<not> deleted m \<and> messageType m \<noteq> System"
    and "length h \<le> 50"
proof -
  from assms have r: "rs = {sid}"
    and h: "h = (if db_ok st then rev (getChatHistory (db st) aid 50 None) else [])"
    using join_history by blast+
  show "rs = {sid}" by (rule r)
  show "sorted (map createdAt h)"
    unfolding h getChatHistory_def by (simp add: sorted_rev_limit)
  show "\<forall>m\<in>set h. m \<in> set (db st) \<and> asteroidId m = aid \<and> \<not> deleted m \<and> messageType m \<noteq> System"
    unfolding h using getChatHistory_mem [of _ "db st" aid 50 None]
    by (auto simp: history_query_def)
  show "length h \<le> 50"
    unfolding h getChatHistory_def using length_limit_docs [of 50] by (simp add: limit_docs_def)
qed

lemma get_messages_props:
  assumes "snd (get_messages st aid limit before) = Messages n h"
  shows "sorted (map createdAt h)"
    and "\<forall>m\<in>set h. m \<in> set (db st) \<and> asteroidId m = aid \<and> \<not> deleted m \<and> messageType m \<noteq> System
           \<and> (\<forall>d. before = Before d \<longrightarrow> createdAt m < d)"
proof -
  let ?b = "case before of Before d \<Rightarrow> Some d | _ \<Rightarrow> None"
  let ?n = "case limit of None \<Rightarrow> 50 | Some l \<Rightarrow> l"
  from assms have h: "h = rev (limit_docs ?n (sort_desc (filter (history_query aid ?b) (db st))))"
    using get_messages_history by blast
  show "sorted (map createdAt h)"
    unfolding h by (rule sorted_rev_limit)
  show "\<forall>m\<in>set h. m \<in> set (db st) \<and> asteroidId m = aid \<and> \<not> deleted m \<and> messageType m \<noteq> System
           \<and> (\<forall>d. before = Before d \<longrightarrow> createdAt m < d)"
  proof
    fix m assume "m \<in> set h"
    then have "m \<in> set (db st) \<and> history_query aid ?b m"
      unfolding h by (rule history_query_mem)
    then show "m \<in> set (db st) \<and> asteroidId m = aid \<and> \<not> deleted m \<and> messageType m \<noteq> System
           \<and> (\<forall>d. before = Before d \<longrightarrow> createdAt m < d)"
      by (auto simp: history_query_def)
  qed
qed

subsection \<open>A deleted message stays deleted\<close>

lemma removed_change:
  assumes "db_change st st'" and "removed st i"
  shows "removed st' i"
  using assms
proof (induction rule: db_change.induct)
  case (reacted st j m st' u e t)
  then have "msg_id (set_reaction m u e t) = i \<longrightarrow> deleted (set_reaction m u e t)"
    by (auto simp: removed_def list_all_iff dest: findById_mem)
  then show ?case
    using reacted by (simp add: removed_def list_all_save_doc)
next
  case (marked st j m st' t)
  then show ?case by (simp add: removed_def list_all_save_doc)
qed (auto simp: removed_def)

lemma removed_run: "removed st i \<Longrightarrow> removed (run st reqs) i"
  unfolding run_def
  by (induction reqs arbitrary: st) (auto intro: removed_change change_step)

lemma save_doc_unique:
  "distinct (map msg_id coll) \<Longrightarrow> x \<in> set (save_doc d coll) \<Longrightarrow> msg_id x = msg_id d \<Longrightarrow> x = d"
  by (induction coll) (auto split: if_splits simp: image_iff)

lemma removed_after_mark:
  assumes "wf_store st" and "findById (db st) i = Some m"
    and "db st' = save_doc (mark_deleted m t) (db st)" and "next_id st' = next_id st"
  shows "removed st' i"
proof -
  from assms(2) have i: "msg_id m = i" and mem: "m \<in> set (db st)"
    by (auto dest: findById_id findById_mem)
  from assms(1) mem i have "i < next_id st"
    by (auto simp: wf_store_def list_all_iff)
  moreover have "\<forall>x\<in>set (save_doc (mark_deleted m t) (db st)). msg_id x = i \<longrightarrow> deleted x"
  proof (intro ballI impI)
    fix x assume "x \<in> set (save_doc (mark_deleted m t) (db st))" and "msg_id x = i"
    with assms(1) i have "x = mark_deleted m t"
      using save_doc_unique [of "db st" x "mark_deleted m t"] by (simp add: wf_store_def)
    then show "deleted x" by simp
  qed
  ultimately show ?thesis
    using assms(3,4) by (simp add: removed_def list_all_iff)
qed

lemma deleteMessage_success:
  assumes "(rs, MessageDeleted i name) \<in> set (snd (deleteMessage st sid i now))"
  shows "\<exists>m. findById (db st) i = Some m \<and> userId m = the (s_userId (sockets st sid)) \<and> s_userId (sockets st sid) \<noteq> None \<and>
           db (fst (deleteMessage st sid i now)) = save_doc (mark_deleted m now) (db st) \<and>
           next_id (fst (deleteMessage st sid i now)) = next_id st"
  using assms
  by (auto simp: deleteMessage_def Let_def socket_emit_def io_to_def split: option.splits if_splits)

lemma delete_message_success:
  assumes "snd (delete_message st cred i now) = Deleted"
  shows "\<exists>m u. findById (db st) i = Some m \<and> cred = Some u \<and> userId m = u_id u \<and>
           db (fst (delete_message st cred i now)) = save_doc (mark_deleted m now) (db st) \<and>
           next_id (fst (delete_message st cred i now)) = next_id st"
  using assms
  by (auto simp: delete_message_def delete_message_route_def auth_def Let_def
      split: option.splits if_splits)

lemma removed_not_in_history:
  "removed st i \<Longrightarrow> m \<in> set (db st) \<Longrightarrow> \<not> deleted m \<Longrightarrow> msg_id m \<noteq> i"
  by (auto simp: removed_def list_all_iff)

lemma removed_after_deleteMessage:
  assumes "wf_store st" and "(rs, MessageDeleted i name) \<in> set (snd (deleteMessage st sid i now))"
  shows "removed (run (fst (deleteMessage st sid i now)) reqs) i"
proof -
  from assms(2) obtain m where "findById (db st) i = Some m"
    and "db (fst (deleteMessage st sid i now)) = save_doc (mark_deleted m now) (db st)"
    and "next_id (fst (deleteMessage st sid i now)) = next_id st"
    using deleteMessage_success by blast
  with assms(1) have "removed (fst (deleteMessage st sid i now)) i"
    by (rule removed_after_mark)
  then show ?thesis by (rule removed_run)
qed

lemma removed_after_delete_message:
  assumes "wf_store st" and "snd (delete_message st cred i now) = Deleted"
  shows "removed (run (fst (delete_message st cred i now)) reqs) i"
proof -
  from assms(2) obtain m where "findById (db st) i = Some m"
    and "db (fst (delete_message st cred i now)) = save_doc (mark_deleted m now) (db st)"
    and "next_id (fst (delete_message st cred i now)) = next_id st"
    using delete_message_success by blast
  with assms(1) have "removed (fst (delete_message st cred i now)) i"
    by (rule removed_after_mark)
  then show ?thesis by (rule removed_run)
qed

lemma removed_join:
  assumes "removed st i" and "(rs, ChatHistory h) \<in> set (snd (joinAsteroid st sid aid))"
  shows "\<forall>m\<in>set h. msg_id m \<noteq> i"
  using join_history_props(3) [OF assms(2)] removed_not_in_history [OF assms(1)] by blast

lemma removed_get_messages:
  assumes "removed st i" and "snd (get_messages st aid limit before) = Messages n h"
  shows "\<forall>m\<in>set h. msg_id m \<noteq> i"
  using get_messages_props(2) [OF assms(2)] removed_not_in_history [OF assms(1)] by blast

section \<open>Claims on history\<close>

text \<open>
  Claim C5. The history delivered to a joiner over the socket and the history returned by the
  GET route are in ascending order of creation time and hold only stored messages of the
  topic that are neither deleted nor of type system; with a \<open>before\<close> date the GET route
  returns only messages created strictly before it. Once a deletion has succeeded, over the
  socket or over REST, no history delivered after any further requests holds the message.
\<close>

theorem history_ascending_without_deleted:
  "((rs, ChatHistory h) \<in> set (snd (joinAsteroid st sid aid)) \<longrightarrow>
      rs = {sid} \<and> sorted (map createdAt h) \<and>
      (\<forall>m\<in>set h. m \<in> set (db st) \<and> asteroidId m = aid \<and> \<not> deleted m \<and> messageType m \<noteq> System))
   \<and> (snd (get_messages st aid limit before) = Messages n h' \<longrightarrow>
      sorted (map createdAt h') \<and>
      (\<forall>m\<in>set h'. m \<in> set (db st) \<and> asteroidId m = aid \<and> \<not> deleted m \<and> messageType m \<noteq> System
          \<and> (\<forall>d. before = Before d \<longrightarrow> createdAt m < d)))
   \<and> (wf_store st \<and> (rs1, MessageDeleted i name) \<in> set (snd (deleteMessage st sid1 i now)) \<longrightarrow>
        ((rs2, ChatHistory h2) \<in> set (snd (joinAsteroid (run (fst (deleteMessage st sid1 i now)) reqs) sid2 aid2)) \<longrightarrow>
            (\<forall>m\<in>set h2. msg_id m \<noteq> i))
      \<and> (snd (get_messages (run (fst (deleteMessage st sid1 i now)) reqs) aid2 limit2 before2) = Messages n2 h3 \<longrightarrow>
            (\<forall>m\<in>set h3. msg_id m \<noteq> i)))
   \<and> (wf_store st \<and> snd (delete_message st cred i now) = Deleted \<longrightarrow>
        ((rs2, ChatHistory h2) \<in> set (snd (joinAsteroid (run (fst (delete_message st cred i now)) reqs) sid2 aid2)) \<longrightarrow>
            (\<forall>m\<in>set h2. msg_id m \<noteq> i))
      \<and> (snd (get_messages (run (fst (delete_message st cred i now)) reqs) aid2 limit2 before2) = Messages n2 h3 \<longrightarrow>
            (\<forall>m\<in>set h3. msg_id m \<noteq> i)))"
proof (intro conjI impI)
  assume a: "(rs, ChatHistory h) \<in> set (snd (joinAsteroid st sid aid))"
  show "rs = {sid}" by (rule join_history_props(1) [OF a])
  show "sorted (map createdAt h)" by (rule join_history_props(2) [OF a])
  show "\<forall>m\<in>set h. m \<in> set (db st) \<and> asteroidId m = aid \<and> \<not> deleted m \<and> messageType m \<noteq> System"
    by (rule join_history_props(3) [OF a])
next
  assume a: "snd (get_messages st aid limit before) = Messages n h'"
  show "sorted (map createdAt h')" by (rule get_messages_props(1) [OF a])
  show "\<forall>m\<in>set h'. m \<in> set (db st) \<and> asteroidId m = aid \<and> \<not> deleted m \<and> messageType m \<noteq> System
          \<and> (\<forall>d. before = Before d \<longrightarrow> createdAt m < d)"
    by (rule get_messages_props(2) [OF a])
next
  assume a: "wf_store st \<and> (rs1, MessageDeleted i name) \<in> set (snd (deleteMessage st sid1 i now))"
  then have r: "removed (run (fst (deleteMessage st sid1 i now)) reqs) i"
    using removed_after_deleteMessage by blast
  { assume "(rs2, ChatHistory h2) \<in> set (snd (joinAsteroid (run (fst (deleteMessage st sid1 i now)) reqs) sid2 aid2))"
    then show "\<forall>m\<in>set h2. msg_id m \<noteq> i" by (rule removed_join [OF r]) }
  { assume "snd (get_messages (run (fst (deleteMessage st sid1 i now)) reqs) aid2 limit2 before2) = Messages n2 h3"
    then show "\<forall>m\<in>set h3. msg_id m \<noteq> i" by (rule removed_get_messages [OF r]) }
next
  assume a: "wf_store st \<and> snd (delete_message st cred i now) = Deleted"
  then have r: "removed (run (fst (delete_message st cred i now)) reqs) i"
    using removed_after_delete_message by blast
  { assume "(rs2, ChatHistory h2) \<in> set (snd (joinAsteroid (run (fst (delete_message st cred i now)) reqs) sid2 aid2))"
    then show "\<forall>m\<in>set h2. msg_id m \<noteq> i" by (rule removed_join [OF r]) }
  { assume "snd (get_messages (run (fst (delete_message st cred i now)) reqs) aid2 limit2 before2) = Messages n2 h3"
    then show "\<forall>m\<in>set h3. msg_id m \<noteq> i" by (rule removed_get_messages [OF r]) }
qed

lemmas history_defs = getChatHistory_def limit_docs_def sort_desc_def history_query_def
  joinAsteroid_def leave_previous_def socket_join_def set_current_def socket_emit_def socket_to_def
  io_to_def room_size_def get_messages_def deleteMessage_def delete_message_def
  delete_message_route_def mark_deleted_def startsWith_def

subsection \<open>Examples\<close>

lemma archive_join:
  "({''A''}, ChatHistory [msg0, msg1]) \<in> set (snd (joinAsteroid archive ''A'' ''x''))"
  by (simp add: archive_def demo_defs history_defs eval_defs)

lemma archive_get:
  "snd (get_messages archive ''x'' (Some 5) (Before 20)) = Messages 1 [msg0]"
  by (simp add: archive_def demo_defs history_defs eval_defs)

lemma archive_wf: "wf_store archive"
  by (simp add: archive_def demo_defs wf_store_def)

lemma archive_delete:
  "({''A'', ''B'', ''G''}, MessageDeleted 1 ''bob'') \<in> set (snd (deleteMessage archive ''B'' 1 50))"
  by (simp add: archive_def demo_defs history_defs eval_defs)

lemma archive_delete_rest:
  "snd (delete_message archive (Some robert) 1 50) = Deleted"
  by (simp add: archive_def demo_defs history_defs eval_defs robert_def)

lemma archive_later_join:
  "({''G''}, ChatHistory [msg0]) \<in> set (snd (joinAsteroid
      (run (fst (deleteMessage archive ''B'' 1 50)) [AddReaction ''A'' 1 (Some ''star'') 60]) ''G'' ''x''))"
  by (simp add: archive_def demo_defs history_defs eval_defs)

lemma archive_later_get:
  "snd (get_messages
      (run (fst (deleteMessage archive ''B'' 1 50)) [AddReaction ''A'' 1 (Some ''star'') 60]) ''x'' None NoBefore)
    = Messages 1 [msg0]"
  by (simp add: archive_def demo_defs history_defs eval_defs)

lemma archive_later_join_rest:
  "({''G''}, ChatHistory [msg0]) \<in> set (snd (joinAsteroid
      (run (fst (delete_message archive (Some robert) 1 50)) [AddReaction ''A'' 1 (Some ''star'') 60]) ''G'' ''x''))"
  by (simp add: archive_def demo_defs history_defs eval_defs robert_def)

lemma archive_later_get_rest:
  "snd (get_messages
      (run (fst (delete_message archive (Some robert) 1 50)) [AddReaction ''A'' 1 (Some ''star'') 60]) ''x'' None NoBefore)
    = Messages 1 [msg0]"
  by (simp add: archive_def demo_defs history_defs eval_defs robert_def)

theorem history_ascending_without_deleted_witness:
  "({''A''}, ChatHistory [msg0, msg1]) \<in> set (snd (joinAsteroid archive ''A'' ''x''))
   \<and> sorted (map createdAt [msg0, msg1]) \<and> msg1 \<in> set (db archive) \<and> \<not> deleted msg1
   \<and> messageType msg1 \<noteq> System
   \<and> snd (get_messages archive ''x'' (Some 5) (Before 20)) = Messages 1 [msg0]
   \<and> createdAt msg0 < 20
   \<and> wf_store archive
   \<and> ({''A'', ''B'', ''G''}, MessageDeleted 1 ''bob'') \<in> set (snd (deleteMessage archive ''B'' 1 50))
   \<and> ({''G''}, ChatHistory [msg0]) \<in> set (snd (joinAsteroid
        (run (fst (deleteMessage archive ''B'' 1 50)) [AddReaction ''A'' 1 (Some ''star'') 60]) ''G'' ''x''))
   \<and> snd (get_messages
        (run (fst (deleteMessage archive ''B'' 1 50)) [AddReaction ''A'' 1 (Some ''star'') 60]) ''x'' None NoBefore)
        = Messages 1 [msg0]
   \<and> snd (delete_message archive (Some robert) 1 50) = Deleted
   \<and> ({''G''}, ChatHistory [msg0]) \<in> set (snd (joinAsteroid
        (run (fst (delete_message archive (Some robert) 1 50)) [AddReaction ''A'' 1 (Some ''star'') 60]) ''G'' ''x''))
   \<and> snd (get_messages
        (run (fst (delete_message archive (Some robert) 1 50)) [AddReaction ''A'' 1 (Some ''star'') 60]) ''x'' None NoBefore)
        = Messages 1 [msg0]
   \<and> msg_id msg0 \<noteq> 1"
proof -
  note t = history_ascending_without_deleted
    [where st = archive and sid = "''A''" and aid = "''x''" and rs = "{''A''}" and h = "[msg0, msg1]"
       and limit = "Some 5" and before = "Before 20" and n = 1 and h' = "[msg0]"
       and i = 1 and now = 50 and ?sid1.0 = "''B''" and ?rs1.0 = "{''A'', ''B'', ''G''}" and name = "''bob''"
       and reqs = "[AddReaction ''A'' 1 (Some ''star'') 60]" and ?sid2.0 = "''G''" and ?aid2.0 = "''x''"
       and ?rs2.0 = "{''G''}" and ?h2.0 = "[msg0]" and ?limit2.0 = None and ?before2.0 = NoBefore
       and ?n2.0 = 1 and ?h3.0 = "[msg0]" and cred = "Some robert"]
  have c1: "sorted (map createdAt [msg0, msg1]) \<and> msg1 \<in> set (db archive) \<and> \<not> deleted msg1
      \<and> messageType msg1 \<noteq> System"
    using t archive_join by simp
  have c2: "createdAt msg0 < 20"
    using t archive_get by simp
  have c3: "msg_id msg0 \<noteq> 1"
    using t archive_wf archive_delete archive_later_join by simp
  show ?thesis
    using c1 c2 c3 archive_join archive_get archive_wf archive_delete archive_later_join
      archive_later_get archive_delete_rest archive_later_join_rest archive_later_get_rest
    by blast
qed

lemma length_sort_desc: "length (sort_desc xs) = length xs"
  by (simp add: sort_desc_def)

lemma flood_query: "filter (history_query ''x'' None) (db flood) = db flood"
  by (simp add: flood_def init_def history_query_def new_message_def)

lemma flood_length: "length (db flood) = 51"
  by (simp add: flood_def init_def)

lemma flood_get:
  "snd (get_messages flood ''x'' (Some 51) NoBefore) = Messages 51 (rev (sort_desc (db flood)))"
proof -
  have "db_ok flood" by (simp add: db_ok_def flood_def init_def)
  moreover have "limit_docs 51 (sort_desc (db flood)) = sort_desc (db flood)"
    by (simp add: limit_docs_def length_sort_desc flood_length)
  ultimately show ?thesis
    by (simp add: get_messages_def Let_def flood_query length_sort_desc flood_length)
qed

text \<open>
  Claim C6, as stated: whatever limit the client supplies, no more than 50 messages come
  back. On a topic with 51 messages the GET route with \<open>limit=51\<close> returns all 51.
\<close>

theorem history_limit_counterexample:
  "\<not> bounded_by 50 (snd (get_messages flood ''x'' (Some 51) NoBefore))"
  by (simp add: flood_get bounded_by_def length_sort_desc flood_length)

text \<open>
  Claim C6, amended. The history delivered on a join holds at most 50 messages. The GET
  route returns at most 50 messages when the client supplies no limit, and at most \<open>limit\<close>
  messages when the client supplies a positive limit: 50 is the default, not a maximum.
\<close>

theorem history_limit_default:
  "((rs, ChatHistory h) \<in> set (snd (joinAsteroid st sid aid)) \<longrightarrow> length h \<le> 50)
   \<and> bounded_by 50 (snd (get_messages st aid None before))
   \<and> (0 < l \<longrightarrow> bounded_by (nat l) (snd (get_messages st aid (Some l) before)))"
proof (intro conjI impI)
  assume "(rs, ChatHistory h) \<in> set (snd (joinAsteroid st sid aid))"
  then show "length h \<le> 50" by (rule join_history_props(4))
next
  show "bounded_by 50 (snd (get_messages st aid None before))"
    by (simp add: bounded_by_def get_messages_def Let_def limit_docs_def)
next
  assume "0 < l"
  then show "bounded_by (nat l) (snd (get_messages st aid (Some l) before))"
    by (simp add: bounded_by_def get_messages_def Let_def limit_docs_def)
qed

theorem history_limit_default_witness:
  "({''A''}, ChatHistory [msg0, msg1]) \<in> set (snd (joinAsteroid archive ''A'' ''x''))
   \<and> length [msg0, msg1] \<le> 50
   \<and> bounded_by 50 (snd (get_messages archive ''x'' None NoBefore))
   \<and> (0::int) < 1 \<and> bounded_by (nat 1) (snd (get_messages archive ''x'' (Some 1) NoBefore))"
  using history_limit_default [where st = archive and sid = "''A''" and aid = "''x''" and rs = "{''A''}"
      and h = "[msg0, msg1]" and before = NoBefore and l = 1] archive_join
  by simp

section \<open>Occupancy\<close>

lemma join_reports_membership:
  "(rs, ActiveUsers n) \<in> set (snd (joinAsteroid st sid aid)) \<Longrightarrow>
     rs = rooms (fst (joinAsteroid st sid aid)) (''asteroid:'' @ aid) \<and>
     n = card (rooms (fst (joinAsteroid st sid aid)) (''asteroid:'' @ aid))"
  by (simp add: join_emissions)
     (simp add: joinAsteroid_def Let_def set_current_def socket_join_def)

lemma disconnect_reports_membership:
  "(rs, ActiveUsers n) \<in> set (snd (disconnect st sid)) \<Longrightarrow>
     currentRoom (sockets st sid) = Some room \<Longrightarrow>
     n = card (rooms (fst (disconnect st sid)) room) \<and> sid \<notin> rooms (fst (disconnect st sid)) room"
  by (simp add: disconnect_def Let_def leave_all_def socket_to_def io_to_def room_size_def)

lemma leave_reports_membership_before:
  "currentRoom (sockets st sid) = Some room \<Longrightarrow>
     snd (leaveAsteroid st sid) =
       [(rooms st room - {sid}, UserLeft (s_username (sockets st sid))),
        (rooms st room, ActiveUsers (card (rooms st room)))] \<and>
     rooms (fst (leaveAsteroid st sid)) room = rooms st room - {sid}"
  by (simp add: leaveAsteroid_def socket_to_def io_to_def room_size_def set_current_def
      socket_leave_def)

lemmas room_defs = run_def init_def guest_def connection_def socket_join_def socket_leave_def
  joinAsteroid_def leave_previous_def set_current_def db_ok_def db_next_def
  socket_emit_def socket_to_def io_to_def room_size_def startsWith_def
  leaveAsteroid_def disconnect_def leave_all_def Let_def

text \<open>
  Claim C2 at two connections \<open>A\<close> and \<open>B\<close> that have joined the room of asteroid \<open>x\<close>:
  when \<open>A\<close> leaves, the occupancy broadcast carries 2, counted before \<open>A\<close> is taken out of
  the room, while one member remains. When \<open>A\<close> disconnects instead, the count is 1.
\<close>

theorem leave_reports_occupancy_with_leaver:
  "snd (leaveAsteroid two_joined ''A'') =
     [({''B''}, UserLeft ''alice''), ({''B'', ''A''}, ActiveUsers 2)]
   \<and> rooms (fst (leaveAsteroid two_joined ''A'')) ''asteroid:x'' = {''B''}
   \<and> room_size (fst (leaveAsteroid two_joined ''A'')) ''asteroid:x'' = 1
   \<and> snd (disconnect two_joined ''A'') = [({''B''}, UserLeft ''alice''), ({''B''}, ActiveUsers 1)]"
  unfolding two_joined_def by (auto simp: room_defs)

section \<open>Reactions without an emoji\<close>

text \<open>
  Claim C8 at a reaction request that carries no emoji: the REST route answers 400 and
  leaves the collection as it is; the socket handler stores a reaction without emoji and
  broadcasts the new reaction list to the room.
\<close>

theorem addReaction_accepts_missing_emoji:
  "snd (addReaction demo ''A'' 1 None 30) =
     [({''A'', ''B'', ''G''},
       ReactionUpdated 1 [\<lparr>r_emoji = None, r_userId = ''u1'', r_createdAt = 30\<rparr>])]
   \<and> db (fst (addReaction demo ''A'' 1 None 30)) =
     [msg0, msg1\<lparr>reactions := [\<lparr>r_emoji = None, r_userId = ''u1'', r_createdAt = 30\<rparr>]\<rparr>]
   \<and> post_reaction demo (Some carol) 1 None 30 = (demo, Failure 400 ''Emoji is required'')"
  by (simp add: demo_defs eval_defs)

section \<open>Sending a message\<close>

lemma sendMessage_rejects:
  assumes "s_userId (sockets st sid) = None \<or> falsy (sd_message data) \<or>
           trim (str (sd_message data)) = [] \<or> length (str (sd_message data)) > 2000"
  shows "fst (sendMessage st sid data now) = st"
    and "\<exists>text. snd (sendMessage st sid data now) = [({sid}, ChatError text)]"
  using assms by (auto simp: sendMessage_def socket_emit_def)

lemma sendMessage_accepts:
  assumes "s_userId (sockets st sid) = Some uid" and "\<not> falsy (sd_message data)"
    and "trim (str (sd_message data)) \<noteq> []" and "length (str (sd_message data)) \<le> 2000"
    and "\<not> falsy (sd_asteroidId data)" and "\<not> falsy (sd_neoReferenceId data)" and "db_ok st"
  shows "\<exists>m. db (fst (sendMessage st sid data now)) = db st @ [m] \<and>
            message m = trim (str (sd_message data)) \<and> userId m = uid \<and>
            msg_id m = next_id st \<and> createdAt m = now \<and>
            asteroidId m = str (sd_asteroidId data) \<and>
            snd (sendMessage st sid data now) =
              [(rooms st (''asteroid:'' @ str (sd_asteroidId data)), NewMessage m)]"
  using assms
  by (simp add: sendMessage_def Let_def insert_doc_def io_to_def new_message_def trim_trim)

lemma post_message_rejects:
  assumes "cred = None \<or> falsy body \<or> trim (str body) = [] \<or> length (str body) > 2000"
  shows "fst (post_message st cred aid body reply now) = st"
    and "\<exists>code text. snd (post_message st cred aid body reply now) = Failure code text"
  using assms
  by (auto simp: post_message_def auth_def post_message_route_def split: option.splits)

lemma post_message_accepts:
  assumes "cred = Some user" and "\<not> falsy body" and "trim (str body) \<noteq> []"
    and "length (str body) \<le> 2000" and "asteroids st aid = Some a" and "faults st = []"
  shows "\<exists>m. db (fst (post_message st cred aid body reply now)) = db st @ [m] \<and>
            message m = trim (str body) \<and> userId m = u_id user \<and>
            msg_id m = next_id st \<and> createdAt m = now \<and> asteroidId m = aid \<and>
            snd (post_message st cred aid body reply now) = Created m"
  using assms
  by (simp add: post_message_def auth_def post_message_route_def Let_def insert_doc_def
      new_message_def trim_trim db_ok_def)

text \<open>
  Claim C3, as stated: a send that is neither anonymous nor empty nor too long is
  persisted. A send of \<open>hello\<close> by an authenticated connection that carries no NEO
  reference id is answered with an error and nothing is stored.
\<close>

theorem sendMessage_counterexample:
  "s_userId (sockets demo ''A'') \<noteq> None
   \<and> \<not> falsy (sd_message (greeting\<lparr>sd_neoReferenceId := None\<rparr>))
   \<and> trim (str (sd_message (greeting\<lparr>sd_neoReferenceId := None\<rparr>))) \<noteq> []
   \<and> \<not> length (str (sd_message (greeting\<lparr>sd_neoReferenceId := None\<rparr>))) > 2000
   \<and> sendMessage demo ''A'' (greeting\<lparr>sd_neoReferenceId := None\<rparr>) 30
       = (demo, [({''A''}, ChatError ''Neo Reference ID is missing'')])"
  by (simp add: demo_defs greeting_def sendMessage_def falsy_def str_def trim_def
      isWhiteSpace_def socket_emit_def)

text \<open>
  Claim C3, amended. On both channels a send by an anonymous identity, with a missing body,
  a body that is empty once trimmed, or a body of more than 2000 code units is answered
  with an error to the sender alone and the server state is unchanged. Otherwise, when
  the asteroid id and the NEO reference id are present (socket) or the asteroid is known
  (REST) and the database calls succeed, the message is appended with the trimmed body and
  the sender as author, and it is broadcast to the room of the asteroid (socket) or
  returned (REST).
\<close>

theorem send_validation:
  "(s_userId (sockets st sid) = None \<or> falsy (sd_message data) \<or>
      trim (str (sd_message data)) = [] \<or> length (str (sd_message data)) > 2000 \<longrightarrow>
      fst (sendMessage st sid data now) = st \<and>
      (\<exists>text. snd (sendMessage st sid data now) = [({sid}, ChatError text)]))
   \<and> (s_userId (sockets st sid) = Some uid \<and> \<not> falsy (sd_message data) \<and>
      trim (str (sd_message data)) \<noteq> [] \<and> length (str (sd_message data)) \<le> 2000 \<and>
      \<not> falsy (sd_asteroidId data) \<and> \<not> falsy (sd_neoReferenceId data) \<and> db_ok st \<longrightarrow>
      (\<exists>m. db (fst (sendMessage st sid data now)) = db st @ [m] \<and>
            message m = trim (str (sd_message data)) \<and> userId m = uid \<and>
            msg_id m = next_id st \<and> createdAt m = now \<and>
            asteroidId m = str (sd_asteroidId data) \<and>
            snd (sendMessage st sid data now) =
              [(rooms st (''asteroid:'' @ str (sd_asteroidId data)), NewMessage m)]))
   \<and> (cred = None \<or> falsy body \<or> trim (str body) = [] \<or> length (str body) > 2000 \<longrightarrow>
      fst (post_message st cred aid body reply now) = st \<and>
      (\<exists>code text. snd (post_message st cred aid body reply now) = Failure code text))
   \<and> (cred = Some user \<and> \<not> falsy body \<and> trim (str body) \<noteq> [] \<and> length (str body) \<le> 2000 \<and>
      asteroids st aid = Some a \<and> faults st = [] \<longrightarrow>
      (\<exists>m. db (fst (post_message st cred aid body reply now)) = db st @ [m] \<and>
            message m = trim (str body) \<and> userId m = u_id user \<and>
            msg_id m = next_id st \<and> createdAt m = now \<and> asteroidId m = aid \<and>
            snd (post_message st cred aid body reply now) = Created m))"
  using sendMessage_rejects [of st sid data now] sendMessage_accepts [of st sid uid data now]
    post_message_rejects [of cred body st aid reply now]
    post_message_accepts [of cred user body st aid a reply now]
  by blast

lemma greeting_valid:
  "\<not> falsy (sd_message greeting) \<and> trim (str (sd_message greeting)) \<noteq> [] \<and>
   length (str (sd_message greeting)) \<le> 2000 \<and> \<not> falsy (sd_asteroidId greeting) \<and>
   \<not> falsy (sd_neoReferenceId greeting)"
  by (simp add: greeting_def falsy_def str_def trim_def isWhiteSpace_def hello_def)

lemma greeting_trimmed: "trim (str (sd_message greeting)) = hello"
  by (simp add: greeting_def str_def trim_def isWhiteSpace_def hello_def)

theorem send_validation_witness:
  "s_userId (sockets demo ''G'') = None
   \<and> fst (sendMessage demo ''G'' greeting 30) = demo
   \<and> (\<exists>text. snd (sendMessage demo ''G'' greeting 30) = [({''G''}, ChatError text)])
   \<and> s_userId (sockets demo ''A'') = Some ''u1'' \<and> \<not> falsy (sd_message greeting)
   \<and> trim (str (sd_message greeting)) \<noteq> [] \<and> length (str (sd_message greeting)) \<le> 2000
   \<and> \<not> falsy (sd_asteroidId greeting) \<and> \<not> falsy (sd_neoReferenceId greeting) \<and> db_ok demo
   \<and> (\<exists>m. db (fst (sendMessage demo ''A'' greeting 30)) = db demo @ [m] \<and>
          message m = hello \<and> userId m = ''u1'' \<and> msg_id m = next_id demo \<and> createdAt m = 30 \<and>
          snd (sendMessage demo ''A'' greeting 30) =
            [(rooms demo (''asteroid:'' @ str (sd_asteroidId greeting)), NewMessage m)])
   \<and> fst (post_message demo None ceres (sd_message greeting) None 30) = demo
   \<and> (\<exists>code text. snd (post_message demo None ceres (sd_message greeting) None 30) = Failure code text)
   \<and> asteroids demo ceres = Some \<lparr>a_neoReferenceId = ''n1'', a_name = ''X''\<rparr> \<and> faults demo = []
   \<and> (\<exists>m. db (fst (post_message demo (Some carol) ceres (sd_message greeting) None 30)) = db demo @ [m] \<and>
          message m = hello \<and> userId m = u_id carol \<and>
          snd (post_message demo (Some carol) ceres (sd_message greeting) None 30) = Created m)"
proof -
  have g: "s_userId (sockets demo ''G'') = None" by (simp add: demo_defs)
  have a: "s_userId (sockets demo ''A'') = Some ''u1''" by (simp add: demo_defs)
  have ok: "db_ok demo" "faults demo = []" by (simp_all add: demo_defs db_ok_def)
  have x: "asteroids demo ceres = Some \<lparr>a_neoReferenceId = ''n1'', a_name = ''X''\<rparr>"
    by (simp add: demo_defs)
  note t1 = send_validation [where st = demo and sid = "''G''" and data = greeting and now = 30
      and cred = None and aid = ceres and body = "sd_message greeting" and reply = None]
  note t2 = send_validation [where st = demo and sid = "''A''" and data = greeting and now = 30
      and uid = "''u1''" and cred = "Some carol" and user = carol and aid = ceres
      and body = "sd_message greeting" and reply = None
      and a = "\<lparr>a_neoReferenceId = ''n1'', a_name = ''X''\<rparr>"]
  have c1: "fst (sendMessage demo ''G'' greeting 30) = demo
      \<and> (\<exists>text. snd (sendMessage demo ''G'' greeting 30) = [({''G''}, ChatError text)])"
    using t1 g by blast
  have c2: "\<exists>m. db (fst (sendMessage demo ''A'' greeting 30)) = db demo @ [m] \<and>
          message m = hello \<and> userId m = ''u1'' \<and> msg_id m = next_id demo \<and> createdAt m = 30 \<and>
          snd (sendMessage demo ''A'' greeting 30) =
            [(rooms demo (''asteroid:'' @ str (sd_asteroidId greeting)), NewMessage m)]"
    using t2 a ok greeting_valid unfolding greeting_trimmed by blast
  have c3: "fst (post_message demo None ceres (sd_message greeting) None 30) = demo
      \<and> (\<exists>code text. snd (post_message demo None ceres (sd_message greeting) None 30) = Failure code text)"
    using t1 by blast
  have c4: "\<exists>m. db (fst (post_message demo (Some carol) ceres (sd_message greeting) None 30)) = db demo @ [m] \<and>
          message m = hello \<and> userId m = u_id carol \<and>
          snd (post_message demo (Some carol) ceres (sd_message greeting) None 30) = Created m"
    using t2 x ok greeting_valid unfolding greeting_trimmed by blast
  show ?thesis
    using g a ok x greeting_valid c1 c2 c3 c4 by blast
qed

text \<open>An id that is not an ObjectId and is stored nowhere: the cast fails, no database call is made.\<close>

lemma post_message_malformed_id:
  "post_message demo (Some carol) ''x'' (sd_message greeting) None 30 =
     (demo, Failure 500 ''Failed to send message'')"
  using greeting_valid
  by (simp add: post_message_def auth_def post_message_route_def isObjectId_def demo_defs ceres_def)

lemma post_message_cast_fails:
  assumes "\<not> falsy body" and "trim (str body) \<noteq> []" and "length (str body) \<le> 2000"
    and "\<not> isObjectId aid" and "asteroids st aid = None"
  shows "post_message st (Some user) aid body reply now = (st, Failure 500 ''Failed to send message'')"
  using assms by (simp add: post_message_def auth_def post_message_route_def)

section \<open>Deleting a message\<close>

lemma save_doc_twice:
  "msg_id d1 = msg_id d2 \<Longrightarrow> save_doc d2 (save_doc d1 coll) = save_doc d2 coll"
  by (induction coll) auto

lemma mark_deleted_twice: "mark_deleted (mark_deleted m t1) t2 = mark_deleted m t2"
  by (simp add: mark_deleted_def)

lemma deleteMessage_denied:
  assumes "s_userId (sockets st sid) = Some uid" and "db_ok st"
    and "findById (db st) i = Some m" and "userId m \<noteq> uid"
  shows "db (fst (deleteMessage st sid i now)) = db st"
    and "snd (deleteMessage st sid i now) =
           [({sid}, ChatError ''You can only delete your own messages'')]"
  using assms by (simp_all add: deleteMessage_def socket_emit_def)

lemma deleteMessage_owner:
  assumes "s_userId (sockets st sid) = Some uid" and "faults st = []"
    and "findById (db st) i = Some m" and "userId m = uid"
  shows "fst (deleteMessage st sid i now) = st\<lparr>db := save_doc (mark_deleted m now) (db st)\<rparr>"
    and "snd (deleteMessage st sid i now) =
           [(rooms st (''asteroid:'' @ asteroidId m), MessageDeleted i (s_username (sockets st sid)))]"
    and "findById (db (fst (deleteMessage st sid i now))) i = Some (mark_deleted m now)"
proof -
  from assms(3) have i: "msg_id m = i" by (rule findById_id)
  show 1: "fst (deleteMessage st sid i now) = st\<lparr>db := save_doc (mark_deleted m now) (db st)\<rparr>"
    using assms by (simp add: deleteMessage_def Let_def db_ok_def db_next_def)
  show "snd (deleteMessage st sid i now) =
           [(rooms st (''asteroid:'' @ asteroidId m), MessageDeleted i (s_username (sockets st sid)))]"
    using assms by (simp add: deleteMessage_def Let_def db_ok_def db_next_def io_to_def)
  show "findById (db (fst (deleteMessage st sid i now))) i = Some (mark_deleted m now)"
    unfolding 1 using assms(3) i findById_save_doc [of "db st" "mark_deleted m now" m] by simp
qed

lemma deleteMessage_retry:
  assumes "s_userId (sockets st sid) = Some uid" and "faults st = []"
    and "findById (db st) i = Some m" and "userId m = uid"
  shows "fst (deleteMessage (fst (deleteMessage st sid i now)) sid i now')
           = fst (deleteMessage st sid i now')"
    and "snd (deleteMessage (fst (deleteMessage st sid i now)) sid i now')
           = snd (deleteMessage st sid i now')"
proof -
  let ?st1 = "st\<lparr>db := save_doc (mark_deleted m now) (db st)\<rparr>"
  have 1: "fst (deleteMessage st sid i now) = ?st1"
    using assms by (rule deleteMessage_owner(1))
  have f: "findById (db ?st1) i = Some (mark_deleted m now)"
    using deleteMessage_owner(3) [OF assms, of now] unfolding 1 .
  have a: "s_userId (sockets ?st1 sid) = Some uid" "faults ?st1 = []"
    "userId (mark_deleted m now) = uid"
    using assms by simp_all
  have "fst (deleteMessage ?st1 sid i now')
          = ?st1\<lparr>db := save_doc (mark_deleted (mark_deleted m now) now') (db ?st1)\<rparr>"
    using a(1,2) f a(3) by (rule deleteMessage_owner(1))
  also have "\<dots> = st\<lparr>db := save_doc (mark_deleted m now') (db st)\<rparr>"
    by (simp add: mark_deleted_twice save_doc_twice)
  also have "\<dots> = fst (deleteMessage st sid i now')"
    using deleteMessage_owner(1) [OF assms, of now'] by simp
  finally show "fst (deleteMessage (fst (deleteMessage st sid i now)) sid i now')
           = fst (deleteMessage st sid i now')"
    unfolding 1 .
  have "snd (deleteMessage ?st1 sid i now') =
          [(rooms ?st1 (''asteroid:'' @ asteroidId (mark_deleted m now)),
            MessageDeleted i (s_username (sockets ?st1 sid)))]"
    using a(1,2) f a(3) by (rule deleteMessage_owner(2))
  then show "snd (deleteMessage (fst (deleteMessage st sid i now)) sid i now')
           = snd (deleteMessage st sid i now')"
    unfolding 1 using deleteMessage_owner(2) [OF assms, of now'] by simp
qed

lemma delete_message_denied:
  assumes "db_ok st" and "findById (db st) i = Some m" and "userId m \<noteq> u_id user"
  shows "db (fst (delete_message st (Some user) i now)) = db st"
    and "snd (delete_message st (Some user) i now) =
           Failure 403 ''You can only delete your own messages''"
  using assms by (simp_all add: delete_message_def auth_def delete_message_route_def)

lemma delete_message_owner:
  assumes "faults st = []" and "findById (db st) i = Some m" and "userId m = u_id user"
  shows "fst (delete_message st (Some user) i now) = st\<lparr>db := save_doc (mark_deleted m now) (db st)\<rparr>"
    and "snd (delete_message st (Some user) i now) = Deleted"
    and "findById (db (fst (delete_message st (Some user) i now))) i = Some (mark_deleted m now)"
proof -
  from assms(2) have i: "msg_id m = i" by (rule findById_id)
  show 1: "fst (delete_message st (Some user) i now) = st\<lparr>db := save_doc (mark_deleted m now) (db st)\<rparr>"
    using assms
    by (simp add: delete_message_def auth_def delete_message_route_def Let_def db_ok_def db_next_def)
  show "snd (delete_message st (Some user) i now) = Deleted"
    using assms
    by (simp add: delete_message_def auth_def delete_message_route_def Let_def db_ok_def db_next_def)
  show "findById (db (fst (delete_message st (Some user) i now))) i = Some (mark_deleted m now)"
    unfolding 1 using assms(2) i findById_save_doc [of "db st" "mark_deleted m now" m] by simp
qed

lemma delete_message_retry:
  assumes "faults st = []" and "findById (db st) i = Some m" and "userId m = u_id user"
  shows "delete_message (fst (delete_message st (Some user) i now)) (Some user) i now'
           = delete_message st (Some user) i now'"
proof -
  let ?st1 = "st\<lparr>db := save_doc (mark_deleted m now) (db st)\<rparr>"
  have 1: "fst (delete_message st (Some user) i now) = ?st1"
    using assms by (rule delete_message_owner(1))
  have f: "findById (db ?st1) i = Some (mark_deleted m now)"
    using delete_message_owner(3) [OF assms, of now] unfolding 1 .
  have a: "faults ?st1 = []" "userId (mark_deleted m now) = u_id user"
    using assms by simp_all
  have "fst (delete_message ?st1 (Some user) i now')
          = ?st1\<lparr>db := save_doc (mark_deleted (mark_deleted m now) now') (db ?st1)\<rparr>"
    using a(1) f a(2) by (rule delete_message_owner(1))
  also have "\<dots> = st\<lparr>db := save_doc (mark_deleted m now') (db st)\<rparr>"
    by (simp add: mark_deleted_twice save_doc_twice)
  also have "\<dots> = fst (delete_message st (Some user) i now')"
    using delete_message_owner(1) [OF assms, of now'] by simp
  finally have "fst (delete_message ?st1 (Some user) i now') = fst (delete_message st (Some user) i now')" .
  moreover have "snd (delete_message ?st1 (Some user) i now') = snd (delete_message st (Some user) i now')"
    using delete_message_owner(2) [OF a(1) f a(2), of now'] delete_message_owner(2) [OF assms, of now']
    by simp
  ultimately show ?thesis
    unfolding 1 by (simp add: prod_eq_iff)
qed

text \<open>
  Claim C4. A delete request of an authenticated requester for a stored message: when the
  requester is not the author, the answer is the permission error to the requester alone
  and the collection is unchanged, whether or not the message is already deleted (the
  handler never reads the deleted flag). When the requester is the author, the message is
  stored with the deleted flag set and the time of the request as deletion time, and a
  second request by the author succeeds again and leaves the same result as a single
  request at that time.
\<close>

theorem delete_owner_only:
  "(s_userId (sockets st sid) = Some uid \<and> db_ok st \<and> findById (db st) i = Some m \<and>
      userId m \<noteq> uid \<longrightarrow>
      db (fst (deleteMessage st sid i now)) = db st \<and>
      snd (deleteMessage st sid i now) =
        [({sid}, ChatError ''You can only delete your own messages'')])
   \<and> (s_userId (sockets st sid) = Some uid \<and> faults st = [] \<and> findById (db st) i = Some m \<and>
      userId m = uid \<longrightarrow>
      findById (db (fst (deleteMessage st sid i now))) i =
        Some (m\<lparr>deleted := True, deletedAt := Some now\<rparr>) \<and>
      snd (deleteMessage st sid i now) =
        [(rooms st (''asteroid:'' @ asteroidId m), MessageDeleted i (s_username (sockets st sid)))] \<and>
      deleteMessage (fst (deleteMessage st sid i now)) sid i now' = deleteMessage st sid i now')
   \<and> (db_ok st \<and> findById (db st) i = Some m \<and> userId m \<noteq> u_id user \<longrightarrow>
      db (fst (delete_message st (Some user) i now)) = db st \<and>
      snd (delete_message st (Some user) i now) =
        Failure 403 ''You can only delete your own messages'')
   \<and> (faults st = [] \<and> findById (db st) i = Some m \<and> userId m = u_id user \<longrightarrow>
      findById (db (fst (delete_message st (Some user) i now))) i =
        Some (m\<lparr>deleted := True, deletedAt := Some now\<rparr>) \<and>
      snd (delete_message st (Some user) i now) = Deleted \<and>
      delete_message (fst (delete_message st (Some user) i now)) (Some user) i now'
        = delete_message st (Some user) i now')"
proof (intro conjI impI)
  assume a: "s_userId (sockets st sid) = Some uid \<and> db_ok st \<and> findById (db st) i = Some m \<and>
      userId m \<noteq> uid"
  then show "db (fst (deleteMessage st sid i now)) = db st"
    using deleteMessage_denied(1) by blast
  from a show "snd (deleteMessage st sid i now) =
        [({sid}, ChatError ''You can only delete your own messages'')]"
    using deleteMessage_denied(2) by blast
next
  assume a: "s_userId (sockets st sid) = Some uid \<and> faults st = [] \<and> findById (db st) i = Some m \<and>
      userId m = uid"
  then show "findById (db (fst (deleteMessage st sid i now))) i =
        Some (m\<lparr>deleted := True, deletedAt := Some now\<rparr>)"
    using deleteMessage_owner(3) [of st sid uid i m now] by (simp add: mark_deleted_def)
  from a show "snd (deleteMessage st sid i now) =
        [(rooms st (''asteroid:'' @ asteroidId m), MessageDeleted i (s_username (sockets st sid)))]"
    using deleteMessage_owner(2) by blast
  from a show "deleteMessage (fst (deleteMessage st sid i now)) sid i now' = deleteMessage st sid i now'"
    using deleteMessage_retry [of st sid uid i m now now'] by (simp add: prod_eq_iff)
next
  assume a: "db_ok st \<and> findById (db st) i = Some m \<and> userId m \<noteq> u_id user"
  then show "db (fst (delete_message st (Some user) i now)) = db st"
    using delete_message_denied(1) by blast
  from a show "snd (delete_message st (Some user) i now) =
        Failure 403 ''You can only delete your own messages''"
    using delete_message_denied(2) by blast
next
  assume a: "faults st = [] \<and> findById (db st) i = Some m \<and> userId m = u_id user"
  then show "findById (db (fst (delete_message st (Some user) i now))) i =
        Some (m\<lparr>deleted := True, deletedAt := Some now\<rparr>)"
    using delete_message_owner(3) [of st i m user now] by (simp add: mark_deleted_def)
  from a show "snd (delete_message st (Some user) i now) = Deleted"
    using delete_message_owner(2) by blast
  from a show "delete_message (fst (delete_message st (Some user) i now)) (Some user) i now'
        = delete_message st (Some user) i now'"
    using delete_message_retry by blast
qed

lemma archive_find2: "findById (db archive) 2 = Some msg2"
  by (simp add: archive_def demo_defs findById_def)

lemma archive_ok: "db_ok archive" "faults archive = []"
  by (simp_all add: archive_def demo_defs db_ok_def)

lemma archive_users:
  "s_userId (sockets archive ''A'') = Some ''u1''" "s_userId (sockets archive ''B'') = Some ''u2''"
  "userId msg2 = ''u2''" "deleted msg2" "u_id carol = ''u3''" "u_id robert = ''u2''"
  by (simp_all add: archive_def demo_defs robert_def)

theorem delete_owner_only_witness:
  "s_userId (sockets archive ''A'') = Some ''u1'' \<and> db_ok archive
   \<and> findById (db archive) 2 = Some msg2 \<and> userId msg2 \<noteq> ''u1'' \<and> deleted msg2
   \<and> db (fst (deleteMessage archive ''A'' 2 50)) = db archive
   \<and> snd (deleteMessage archive ''A'' 2 50) =
        [({''A''}, ChatError ''You can only delete your own messages'')]
   \<and> s_userId (sockets archive ''B'') = Some ''u2'' \<and> faults archive = [] \<and> userId msg2 = ''u2''
   \<and> findById (db (fst (deleteMessage archive ''B'' 2 50))) 2 =
        Some (msg2\<lparr>deleted := True, deletedAt := Some 50\<rparr>)
   \<and> deleteMessage (fst (deleteMessage archive ''B'' 2 50)) ''B'' 2 60 = deleteMessage archive ''B'' 2 60
   \<and> userId msg2 \<noteq> u_id carol
   \<and> db (fst (delete_message archive (Some carol) 2 50)) = db archive
   \<and> snd (delete_message archive (Some carol) 2 50) =
        Failure 403 ''You can only delete your own messages''
   \<and> userId msg2 = u_id robert
   \<and> findById (db (fst (delete_message archive (Some robert) 2 50))) 2 =
        Some (msg2\<lparr>deleted := True, deletedAt := Some 50\<rparr>)
   \<and> snd (delete_message archive (Some robert) 2 50) = Deleted
   \<and> delete_message (fst (delete_message archive (Some robert) 2 50)) (Some robert) 2 60
        = delete_message archive (Some robert) 2 60"
proof -
  note t1 = delete_owner_only [where st = archive and sid = "''A''" and uid = "''u1''" and i = 2
      and m = msg2 and now = 50 and user = carol]
  note t2 = delete_owner_only [where st = archive and sid = "''B''" and uid = "''u2''" and i = 2
      and m = msg2 and now = 50 and now' = 60 and user = robert]
  have n: "userId msg2 \<noteq> ''u1''" "userId msg2 \<noteq> u_id carol" "userId msg2 = u_id robert"
    by (simp_all add: archive_users)
  have c1: "db (fst (deleteMessage archive ''A'' 2 50)) = db archive
     \<and> snd (deleteMessage archive ''A'' 2 50) =
        [({''A''}, ChatError ''You can only delete your own messages'')]"
    using t1 archive_users(1) archive_ok(1) archive_find2 n(1) by blast
  have c2: "findById (db (fst (deleteMessage archive ''B'' 2 50))) 2 =
        Some (msg2\<lparr>deleted := True, deletedAt := Some 50\<rparr>)
     \<and> deleteMessage (fst (deleteMessage archive ''B'' 2 50)) ''B'' 2 60 = deleteMessage archive ''B'' 2 60"
    using t2 archive_users(2,3) archive_ok(2) archive_find2 by blast
  have c3: "db (fst (delete_message archive (Some carol) 2 50)) = db archive
     \<and> snd (delete_message archive (Some carol) 2 50) =
        Failure 403 ''You can only delete your own messages''"
    using t1 archive_ok(1) archive_find2 n(2) by blast
  have c4: "findById (db (fst (delete_message archive (Some robert) 2 50))) 2 =
        Some (msg2\<lparr>deleted := True, deletedAt := Some 50\<rparr>)
     \<and> snd (delete_message archive (Some robert) 2 50) = Deleted
     \<and> delete_message (fst (delete_message archive (Some robert) 2 50)) (Some robert) 2 60
        = delete_message archive (Some robert) 2 60"
    using t2 archive_ok(2) archive_find2 n(3) by blast
  show ?thesis
    using c1 c2 c3 c4 n archive_users archive_ok archive_find2 by blast
qed

section \<open>Failing database calls\<close>

lemma join_after_failed_query:
  assumes "\<not> db_ok st"
  shows "snd (joinAsteroid st sid aid) =
      [({sid}, ChatHistory []),
       (rooms (fst (joinAsteroid st sid aid)) (''asteroid:'' @ aid) - {sid},
        UserJoined (s_username (sockets st sid))),
       (rooms (fst (joinAsteroid st sid aid)) (''asteroid:'' @ aid),
        ActiveUsers (card (rooms (fst (joinAsteroid st sid aid)) (''asteroid:'' @ aid))))]"
    and "rooms (fst (joinAsteroid st sid aid)) (''asteroid:'' @ aid) =
           insert sid (rooms st (''asteroid:'' @ aid))"
    and "currentRoom (sockets (fst (joinAsteroid st sid aid)) sid) = Some (''asteroid:'' @ aid)"
proof -
  have r: "rooms (fst (joinAsteroid st sid aid)) = rooms (socket_join (leave_previous st sid (''asteroid:'' @ aid)) sid (''asteroid:'' @ aid))"
    by (simp add: joinAsteroid_def Let_def set_current_def)
  have m: "rooms (socket_join (leave_previous st sid r) sid r) r = insert sid (rooms st r)" for r
    by (simp add: socket_join_def leave_previous_def)
  have l: "rooms (leave_previous st sid r) r = rooms st r" for r
    by (simp add: leave_previous_def)
  show "rooms (fst (joinAsteroid st sid aid)) (''asteroid:'' @ aid) =
           insert sid (rooms st (''asteroid:'' @ aid))"
    unfolding r by (rule m)
  show "snd (joinAsteroid st sid aid) =
      [({sid}, ChatHistory []),
       (rooms (fst (joinAsteroid st sid aid)) (''asteroid:'' @ aid) - {sid},
        UserJoined (s_username (sockets st sid))),
       (rooms (fst (joinAsteroid st sid aid)) (''asteroid:'' @ aid),
        ActiveUsers (card (rooms (fst (joinAsteroid st sid aid)) (''asteroid:'' @ aid))))]"
    unfolding r m join_emissions l using assms by simp
  show "currentRoom (sockets (fst (joinAsteroid st sid aid)) sid) = Some (''asteroid:'' @ aid)"
    by (simp add: joinAsteroid_def Let_def set_current_def)
qed

text \<open>
  Claim C7, as stated: an error is surfaced only after a retry has failed as well. With a
  database whose next call fails and whose call after that would succeed, a valid send by
  an authenticated connection is answered with the error after the one failing call;
  nothing is stored and the succeeding call is still to come.
\<close>

theorem store_retry_counterexample:
  "\<not> (surfaced (snd (sendMessage flaky ''A'' greeting 30)) \<longrightarrow> take 2 (faults flaky) = [False, False])
   \<and> sendMessage flaky ''A'' greeting 30 =
       (flaky\<lparr>faults := [True]\<rparr>, [({''A''}, ChatError ''Failed to send message'')])"
  by (simp add: flaky_def demo_defs greeting_def sendMessage_def falsy_def str_def trim_def
      isWhiteSpace_def socket_emit_def surfaced_def db_ok_def db_next_def Let_def)

text \<open>
  Claim C7, amended. A failing database call is not retried. In the handlers for send,
  reaction and delete the first failing call ends the handler: exactly the calls made so
  far are consumed, the collection is unchanged, and one error event goes to the
  triggering connection alone. When the history query of a join fails, the joiner
  receives an empty history instead of an error, and the join goes on as after a query
  that succeeds: the joiner is a member of the room, which is its current room, the other
  members receive the announcement that it joined, and the whole room receives the
  occupancy after the join.
\<close>

theorem store_failure_surfaced_at_once:
  "(\<not> db_ok st \<and> s_userId (sockets st sid) = Some uid \<and> \<not> falsy (sd_asteroidId data) \<and>
      \<not> falsy (sd_neoReferenceId data) \<and> \<not> falsy (sd_message data) \<and>
      trim (str (sd_message data)) \<noteq> [] \<and> length (str (sd_message data)) \<le> 2000 \<longrightarrow>
      sendMessage st sid data now =
        (db_next st, [({sid}, ChatError ''Failed to send message'')]))
   \<and> (\<not> db_ok st \<and> s_userId (sockets st sid) = Some uid \<longrightarrow>
      addReaction st sid i emoji now = (db_next st, [({sid}, ChatError ''Failed to add reaction'')]) \<and>
      deleteMessage st sid i now = (db_next st, [({sid}, ChatError ''Failed to delete message'')]))
   \<and> (db_ok st \<and> \<not> db_ok (db_next st) \<and> s_userId (sockets st sid) = Some uid \<and>
      findById (db st) i = Some m \<longrightarrow>
      addReaction st sid i emoji now =
        (db_next (db_next st), [({sid}, ChatError ''Failed to add reaction'')]))
   \<and> (db_ok st \<and> \<not> db_ok (db_next st) \<and> s_userId (sockets st sid) = Some uid \<and>
      findById (db st) i = Some m \<and> userId m = uid \<longrightarrow>
      deleteMessage st sid i now =
        (db_next (db_next st), [({sid}, ChatError ''Failed to delete message'')]))
   \<and> (\<not> db_ok st \<longrightarrow>
      hd (snd (joinAsteroid st sid aid)) = ({sid}, ChatHistory []) \<and>
      \<not> surfaced (snd (joinAsteroid st sid aid)) \<and>
      faults (fst (joinAsteroid st sid aid)) = tl (faults st) \<and>
      db (fst (joinAsteroid st sid aid)) = db st \<and>
      snd (joinAsteroid st sid aid) =
        [({sid}, ChatHistory []),
         (rooms (fst (joinAsteroid st sid aid)) (''asteroid:'' @ aid) - {sid},
          UserJoined (s_username (sockets st sid))),
         (rooms (fst (joinAsteroid st sid aid)) (''asteroid:'' @ aid),
          ActiveUsers (card (rooms (fst (joinAsteroid st sid aid)) (''asteroid:'' @ aid))))] \<and>
      rooms (fst (joinAsteroid st sid aid)) (''asteroid:'' @ aid) =
        insert sid (rooms st (''asteroid:'' @ aid)) \<and>
      currentRoom (sockets (fst (joinAsteroid st sid aid)) sid) = Some (''asteroid:'' @ aid))"
proof (intro conjI impI)
  assume "\<not> db_ok st \<and> s_userId (sockets st sid) = Some uid \<and> \<not> falsy (sd_asteroidId data) \<and>
      \<not> falsy (sd_neoReferenceId data) \<and> \<not> falsy (sd_message data) \<and>
      trim (str (sd_message data)) \<noteq> [] \<and> length (str (sd_message data)) \<le> 2000"
  then show "sendMessage st sid data now =
        (db_next st, [({sid}, ChatError ''Failed to send message'')])"
    by (simp add: sendMessage_def Let_def socket_emit_def)
next
  assume a: "\<not> db_ok st \<and> s_userId (sockets st sid) = Some uid"
  then show "addReaction st sid i emoji now = (db_next st, [({sid}, ChatError ''Failed to add reaction'')])"
    by (simp add: addReaction_def socket_emit_def)
  from a show "deleteMessage st sid i now = (db_next st, [({sid}, ChatError ''Failed to delete message'')])"
    by (simp add: deleteMessage_def socket_emit_def)
next
  assume "db_ok st \<and> \<not> db_ok (db_next st) \<and> s_userId (sockets st sid) = Some uid \<and>
      findById (db st) i = Some m"
  then show "addReaction st sid i emoji now =
        (db_next (db_next st), [({sid}, ChatError ''Failed to add reaction'')])"
    by (simp add: addReaction_def socket_emit_def Let_def)
next
  assume "db_ok st \<and> \<not> db_ok (db_next st) \<and> s_userId (sockets st sid) = Some uid \<and>
      findById (db st) i = Some m \<and> userId m = uid"
  then show "deleteMessage st sid i now =
        (db_next (db_next st), [({sid}, ChatError ''Failed to delete message'')])"
    by (simp add: deleteMessage_def socket_emit_def Let_def)
next
  assume a: "\<not> db_ok st"
  then show "hd (snd (joinAsteroid st sid aid)) = ({sid}, ChatHistory [])"
    by (simp add: join_emissions)
  show "\<not> surfaced (snd (joinAsteroid st sid aid))"
    by (simp add: join_emissions surfaced_def)
  show "faults (fst (joinAsteroid st sid aid)) = tl (faults st)"
    by (simp add: joinAsteroid_def Let_def set_current_def socket_join_def leave_previous_def)
  show "db (fst (joinAsteroid st sid aid)) = db st"
    by (simp add: joinAsteroid_def Let_def set_current_def socket_join_def leave_previous_def)
  from a show "snd (joinAsteroid st sid aid) =
        [({sid}, ChatHistory []),
         (rooms (fst (joinAsteroid st sid aid)) (''asteroid:'' @ aid) - {sid},
          UserJoined (s_username (sockets st sid))),
         (rooms (fst (joinAsteroid st sid aid)) (''asteroid:'' @ aid),
          ActiveUsers (card (rooms (fst (joinAsteroid st sid aid)) (''asteroid:'' @ aid))))]"
    by (rule join_after_failed_query(1))
  from a show "rooms (fst (joinAsteroid st sid aid)) (''asteroid:'' @ aid) =
        insert sid (rooms st (''asteroid:'' @ aid))"
    by (rule join_after_failed_query(2))
  from a show "currentRoom (sockets (fst (joinAsteroid st sid aid)) sid) = Some (''asteroid:'' @ aid)"
    by (rule join_after_failed_query(3))
qed

lemma flaky_join_newcomer:
  "snd (joinAsteroid flaky ''C'' ''x'') =
     [({''C''}, ChatHistory []), ({''A'', ''B'', ''G''}, UserJoined ''Guest''),
      ({''C'', ''A'', ''B'', ''G''}, ActiveUsers 4)]"
  by (simp add: join_emissions flaky_def demo_defs db_ok_def leave_previous_def startsWith_def)

lemma flaky_facts:
  "\<not> db_ok flaky" "s_userId (sockets flaky ''A'') = Some ''u1''"
  "db_ok flaky_save" "\<not> db_ok (db_next flaky_save)"
  "s_userId (sockets flaky_save ''A'') = Some ''u1''"
  "findById (db flaky_save) 0 = Some msg0" "userId msg0 = ''u1''"
  by (simp_all add: flaky_def flaky_save_def demo_defs db_ok_def db_next_def findById_def)

theorem store_failure_surfaced_at_once_witness:
  "\<not> db_ok flaky \<and> s_userId (sockets flaky ''A'') = Some ''u1'' \<and> \<not> falsy (sd_asteroidId greeting)
   \<and> \<not> falsy (sd_neoReferenceId greeting) \<and> \<not> falsy (sd_message greeting)
   \<and> trim (str (sd_message greeting)) \<noteq> [] \<and> length (str (sd_message greeting)) \<le> 2000
   \<and> sendMessage flaky ''A'' greeting 30 =
        (db_next flaky, [({''A''}, ChatError ''Failed to send message'')])
   \<and> addReaction flaky ''A'' 0 (Some ''star'') 30 =
        (db_next flaky, [({''A''}, ChatError ''Failed to add reaction'')])
   \<and> deleteMessage flaky ''A'' 0 30 =
        (db_next flaky, [({''A''}, ChatError ''Failed to delete message'')])
   \<and> db_ok flaky_save \<and> \<not> db_ok (db_next flaky_save)
   \<and> s_userId (sockets flaky_save ''A'') = Some ''u1'' \<and> findById (db flaky_save) 0 = Some msg0
   \<and> userId msg0 = ''u1''
   \<and> addReaction flaky_save ''A'' 0 (Some ''star'') 30 =
        (db_next (db_next flaky_save), [({''A''}, ChatError ''Failed to add reaction'')])
   \<and> deleteMessage flaky_save ''A'' 0 30 =
        (db_next (db_next flaky_save), [({''A''}, ChatError ''Failed to delete message'')])
   \<and> hd (snd (joinAsteroid flaky ''A'' ''x'')) = ({''A''}, ChatHistory [])
   \<and> \<not> surfaced (snd (joinAsteroid flaky ''A'' ''x''))
   \<and> faults (fst (joinAsteroid flaky ''A'' ''x'')) = tl (faults flaky)
   \<and> db (fst (joinAsteroid flaky ''A'' ''x'')) = db flaky
   \<and> snd (joinAsteroid flaky ''C'' ''x'') =
        [({''C''}, ChatHistory []),
         (rooms (fst (joinAsteroid flaky ''C'' ''x'')) (''asteroid:'' @ ''x'') - {''C''},
          UserJoined (s_username (sockets flaky ''C''))),
         (rooms (fst (joinAsteroid flaky ''C'' ''x'')) (''asteroid:'' @ ''x''),
          ActiveUsers (card (rooms (fst (joinAsteroid flaky ''C'' ''x'')) (''asteroid:'' @ ''x''))))]
   \<and> rooms (fst (joinAsteroid flaky ''C'' ''x'')) (''asteroid:'' @ ''x'') =
        insert ''C'' (rooms flaky (''asteroid:'' @ ''x''))
   \<and> currentRoom (sockets (fst (joinAsteroid flaky ''C'' ''x'')) ''C'') = Some (''asteroid:'' @ ''x'')
   \<and> snd (joinAsteroid flaky ''C'' ''x'') =
        [({''C''}, ChatHistory []), ({''A'', ''B'', ''G''}, UserJoined ''Guest''),
         ({''C'', ''A'', ''B'', ''G''}, ActiveUsers 4)]"
proof -
  note t3 = store_failure_surfaced_at_once [where st = flaky and sid = "''C''" and aid = "''x''"]
  have c5: "snd (joinAsteroid flaky ''C'' ''x'') =
        [({''C''}, ChatHistory []),
         (rooms (fst (joinAsteroid flaky ''C'' ''x'')) (''asteroid:'' @ ''x'') - {''C''},
          UserJoined (s_username (sockets flaky ''C''))),
         (rooms (fst (joinAsteroid flaky ''C'' ''x'')) (''asteroid:'' @ ''x''),
          ActiveUsers (card (rooms (fst (joinAsteroid flaky ''C'' ''x'')) (''asteroid:'' @ ''x''))))]
     \<and> rooms (fst (joinAsteroid flaky ''C'' ''x'')) (''asteroid:'' @ ''x'') =
        insert ''C'' (rooms flaky (''asteroid:'' @ ''x''))
     \<and> currentRoom (sockets (fst (joinAsteroid flaky ''C'' ''x'')) ''C'') = Some (''asteroid:'' @ ''x'')"
    using t3 flaky_facts(1) by blast
  note t1 = store_failure_surfaced_at_once [where st = flaky and sid = "''A''" and uid = "''u1''"
      and data = greeting and now = 30 and i = 0 and emoji = "Some ''star''" and aid = "''x''"]
  note t2 = store_failure_surfaced_at_once [where st = flaky_save and sid = "''A''"
      and uid = "''u1''" and now = 30 and i = 0 and emoji = "Some ''star''" and m = msg0]
  have c1: "sendMessage flaky ''A'' greeting 30 =
        (db_next flaky, [({''A''}, ChatError ''Failed to send message'')])"
    using t1 flaky_facts(1,2) greeting_valid by blast
  have c2: "addReaction flaky ''A'' 0 (Some ''star'') 30 =
        (db_next flaky, [({''A''}, ChatError ''Failed to add reaction'')])
     \<and> deleteMessage flaky ''A'' 0 30 =
        (db_next flaky, [({''A''}, ChatError ''Failed to delete message'')])"
    using t1 flaky_facts(1,2) by blast
  have c3: "addReaction flaky_save ''A'' 0 (Some ''star'') 30 =
        (db_next (db_next flaky_save), [({''A''}, ChatError ''Failed to add reaction'')])
     \<and> deleteMessage flaky_save ''A'' 0 30 =
        (db_next (db_next flaky_save), [({''A''}, ChatError ''Failed to delete message'')])"
    using t2 flaky_facts(3-7) by blast
  have c4: "hd (snd (joinAsteroid flaky ''A'' ''x'')) = ({''A''}, ChatHistory [])
     \<and> \<not> surfaced (snd (joinAsteroid flaky ''A'' ''x''))
     \<and> faults (fst (joinAsteroid flaky ''A'' ''x'')) = tl (faults flaky)
     \<and> db (fst (joinAsteroid flaky ''A'' ''x'')) = db flaky"
    using t1 flaky_facts(1) by blast
  show ?thesis
    using c1 c2 c3 c4 c5 flaky_join_newcomer flaky_facts greeting_valid by blast
qed

section \<open>Typing indicators\<close>

text \<open>
  Claim C9, as stated: the typing events of every connection in a room reach the other
  members, and a successful send tells them that the sender stopped typing. The typing
  events of the guest \<open>G\<close>, who is in the room of asteroid \<open>x\<close> with \<open>A\<close> and \<open>B\<close>, reach
  nobody; a successful send by \<open>A\<close> emits the new message and nothing else.
\<close>

theorem typing_counterexample:
  "currentRoom (sockets demo ''G'') = Some ''asteroid:x''
   \<and> ''B'' \<in> rooms demo ''asteroid:x'' - {''G''}
   \<and> typing demo ''G'' = [] \<and> stopTyping demo ''G'' = []
   \<and> snd (sendMessage demo ''A'' greeting 30) =
       [({''A'', ''B'', ''G''},
         NewMessage (new_message 2 30 ''x'' ''n1'' ''X'' ''u1'' ''alice'' None hello None))]"
  by (simp add: demo_defs greeting_def sendMessage_def falsy_def str_def trim_def
      isWhiteSpace_def io_to_def db_ok_def db_next_def Let_def typing_def stopTyping_def
      insert_doc_def)

text \<open>
  Claim C9, amended. The typing and stop-typing events of an authenticated connection
  that has a current room are delivered to the members of that room other than the sender
  and to no one else; those of a guest, or of a connection without a current room, are
  dropped. The send handler emits no typing event and leaves rooms and connections as
  they are, so the indication is cleared by a stop-typing event only: one sent after
  the send is fanned out like any other.
\<close>

theorem typing_fan_out:
  "(currentRoom (sockets st sid) = Some room \<and> s_userId (sockets st sid) = Some uid \<longrightarrow>
      typing st sid =
        [(rooms st room - {sid},
          UserTyping (s_username (sockets st sid)) (currentAsteroid (sockets st sid)))] \<and>
      stopTyping st sid =
        [(rooms st room - {sid},
          UserStoppedTyping (s_username (sockets st sid)) (currentAsteroid (sockets st sid)))])
   \<and> (currentRoom (sockets st sid) = None \<or> s_userId (sockets st sid) = None \<longrightarrow>
      typing st sid = [] \<and> stopTyping st sid = [])
   \<and> list_all (\<lambda>em. \<not> typing_event (snd em)) (snd (sendMessage st sid data now))
   \<and> stopTyping (fst (sendMessage st sid data now)) sid = stopTyping st sid"
proof (intro conjI impI)
  assume a: "currentRoom (sockets st sid) = Some room \<and> s_userId (sockets st sid) = Some uid"
  then show "typing st sid =
        [(rooms st room - {sid},
          UserTyping (s_username (sockets st sid)) (currentAsteroid (sockets st sid)))]"
    by (simp add: typing_def socket_to_def)
  from a show "stopTyping st sid =
        [(rooms st room - {sid},
          UserStoppedTyping (s_username (sockets st sid)) (currentAsteroid (sockets st sid)))]"
    by (simp add: stopTyping_def socket_to_def)
next
  assume a: "currentRoom (sockets st sid) = None \<or> s_userId (sockets st sid) = None"
  then show "typing st sid = []"
    by (auto simp: typing_def split: option.splits)
  from a show "stopTyping st sid = []"
    by (auto simp: stopTyping_def split: option.splits)
next
  show "list_all (\<lambda>em. \<not> typing_event (snd em)) (snd (sendMessage st sid data now))"
    by (simp add: sendMessage_def Let_def socket_emit_def io_to_def typing_event_def
        split: option.splits)
next
  have "rooms (fst (sendMessage st sid data now)) = rooms st"
    "sockets (fst (sendMessage st sid data now)) = sockets st"
    by (simp_all add: sendMessage_def Let_def insert_doc_def split: option.splits)
  then show "stopTyping (fst (sendMessage st sid data now)) sid = stopTyping st sid"
    by (simp add: stopTyping_def socket_to_def split: option.splits)
qed

theorem typing_fan_out_witness:
  "currentRoom (sockets demo ''A'') = Some ''asteroid:x'' \<and> s_userId (sockets demo ''A'') = Some ''u1''
   \<and> typing demo ''A'' =
        [(rooms demo ''asteroid:x'' - {''A''},
          UserTyping (s_username (sockets demo ''A'')) (currentAsteroid (sockets demo ''A'')))]
   \<and> stopTyping demo ''A'' =
        [(rooms demo ''asteroid:x'' - {''A''},
          UserStoppedTyping (s_username (sockets demo ''A'')) (currentAsteroid (sockets demo ''A'')))]
   \<and> s_userId (sockets demo ''G'') = None
   \<and> typing demo ''G'' = [] \<and> stopTyping demo ''G'' = []
   \<and> list_all (\<lambda>em. \<not> typing_event (snd em)) (snd (sendMessage demo ''A'' greeting 30))
   \<and> stopTyping (fst (sendMessage demo ''A'' greeting 30)) ''A'' = stopTyping demo ''A''"
proof -
  have a: "currentRoom (sockets demo ''A'') = Some ''asteroid:x''"
    "s_userId (sockets demo ''A'') = Some ''u1''" "s_userId (sockets demo ''G'') = None"
    by (simp_all add: demo_defs)
  note t1 = typing_fan_out [where st = demo and sid = "''A''" and room = "''asteroid:x''"
      and uid = "''u1''" and data = greeting and now = 30]
  note t2 = typing_fan_out [where st = demo and sid = "''G''"]
  have c1: "typing demo ''A'' =
        [(rooms demo ''asteroid:x'' - {''A''},
          UserTyping (s_username (sockets demo ''A'')) (currentAsteroid (sockets demo ''A'')))]
     \<and> stopTyping demo ''A'' =
        [(rooms demo ''asteroid:x'' - {''A''},
          UserStoppedTyping (s_username (sockets demo ''A'')) (currentAsteroid (sockets demo ''A'')))]
     \<and> list_all (\<lambda>em. \<not> typing_event (snd em)) (snd (sendMessage demo ''A'' greeting 30))
     \<and> stopTyping (fst (sendMessage demo ''A'' greeting 30)) ''A'' = stopTyping demo ''A''"
    using t1 a(1,2) by blast
  have c2: "typing demo ''G'' = [] \<and> stopTyping demo ''G'' = []"
    using t2 a(3) by blast
  show ?thesis using a c1 c2 by blast
qed

section \<open>Switching rooms\<close>

lemma startsWith_room: "startsWith (''asteroid:'' @ aid) ''asteroid:''"
  by (simp add: startsWith_def)

lemma join_rooms:
  "rooms (fst (joinAsteroid st sid aid)) =
     (\<lambda>room. if room = ''asteroid:'' @ aid then insert sid (rooms st room)
             else if sid \<in> rooms st room \<and> startsWith room ''asteroid:'' then rooms st room - {sid}
             else rooms st room)"
  by (auto simp: joinAsteroid_def Let_def set_current_def socket_join_def leave_previous_def
      fun_eq_iff)

lemma single_room_join:
  assumes "single_room st"
  shows "single_room (fst (joinAsteroid st sid aid))"
  unfolding single_room_def join_rooms
proof (intro allI impI)
  fix t r1 r2
  let ?new = "''asteroid:'' @ aid"
  let ?R = "\<lambda>room. if room = ?new then insert sid (rooms st room)
             else if sid \<in> rooms st room \<and> startsWith room ''asteroid:'' then rooms st room - {sid}
             else rooms st room"
  assume a: "t \<in> ?R r1 \<and> startsWith r1 ''asteroid:'' \<and> t \<in> ?R r2 \<and> startsWith r2 ''asteroid:''"
  show "r1 = r2"
  proof (cases "t = sid")
    case True
    with a have "r1 = ?new" "r2 = ?new" by (auto split: if_splits)
    then show ?thesis by simp
  next
    case False
    with a have "t \<in> rooms st r1" "t \<in> rooms st r2" by (auto split: if_splits)
    with a assms show ?thesis unfolding single_room_def by blast
  qed
qed

lemma single_room_subset:
  assumes "single_room st" and "\<And>room. rooms st' room \<subseteq> rooms st room"
  shows "single_room st'"
  using assms unfolding single_room_def by (meson subsetD)

lemma single_room_leave: "single_room st \<Longrightarrow> single_room (fst (leaveAsteroid st sid))"
  by (erule single_room_subset)
     (auto simp: leaveAsteroid_def set_current_def socket_leave_def split: option.splits)

lemma single_room_disconnect: "single_room st \<Longrightarrow> single_room (fst (disconnect st sid))"
  by (erule single_room_subset)
     (auto simp: disconnect_def Let_def leave_all_def split: option.splits)

lemma single_room_connection:
  "single_room st \<Longrightarrow> \<not> startsWith sid ''asteroid:'' \<Longrightarrow>
     single_room (connection st sid uid name avatar)"
  unfolding single_room_def connection_def socket_join_def
  by (auto split: if_splits)

lemma rooms_sendMessage: "rooms (fst (sendMessage st sid data now)) = rooms st"
  by (simp add: sendMessage_def Let_def insert_doc_def split: option.splits)

lemma rooms_addReaction: "rooms (fst (addReaction st sid i emoji now)) = rooms st"
  by (simp add: addReaction_def Let_def split: option.splits)

lemma rooms_deleteMessage: "rooms (fst (deleteMessage st sid i now)) = rooms st"
  by (simp add: deleteMessage_def Let_def split: option.splits)

lemma rooms_rest:
  "rooms (fst (get_messages st aid limit before)) = rooms st"
  "rooms (fst (post_message st cred aid body reply now)) = rooms st"
  "rooms (fst (delete_message st cred i now)) = rooms st"
  "rooms (fst (get_count st aid)) = rooms st"
  "rooms (fst (post_reaction st cred i emoji now)) = rooms st"
  by (simp_all add: get_messages_def post_message_def post_message_route_def delete_message_def
      delete_message_route_def get_count_def post_reaction_def post_reaction_route_def auth_def
      Let_def insert_doc_def split: option.splits)

text \<open>Socket ids are drawn by the transport and never look like the name of an asteroid room.\<close>

lemma single_room_step:
  assumes "single_room st"
    and "\<And>sid uid name avatar. r = Connect sid uid name avatar \<Longrightarrow> \<not> startsWith sid ''asteroid:''"
  shows "single_room (step st r)"
proof (cases r)
  case (Connect sid uid name avatar)
  then show ?thesis using assms by (simp add: single_room_connection)
next
  case (JoinAsteroid sid aid)
  then show ?thesis using assms(1) by (simp add: single_room_join)
next
  case (LeaveAsteroid sid)
  then show ?thesis using assms(1) by (simp add: single_room_leave)
next
  case (Disconnect sid)
  then show ?thesis using assms(1) by (simp add: single_room_disconnect)
qed (use assms(1) in \<open>simp_all add: single_room_def rooms_sendMessage rooms_addReaction
      rooms_deleteMessage rooms_rest\<close>)

lemma single_room_init: "single_room (init known fs)"
  by (simp add: single_room_def init_def)

text \<open>
  Claim C10. A connection whose current room is an asteroid room joins another asteroid:
  it is taken out of the previous room, its current room becomes the new one, and every
  event of the switch goes to the connection itself or to members of the new room. No
  event of the switch reaches a remaining member of the previous room, and none is the
  announcement that a user left.
\<close>

theorem switch_is_silent_for_previous_room:
  assumes "single_room st"
    and "currentRoom (sockets st sid) = Some old" and "startsWith old ''asteroid:''"
    and "sid \<in> rooms st old" and "old \<noteq> ''asteroid:'' @ aid"
  shows "rooms (fst (joinAsteroid st sid aid)) old = rooms st old - {sid}
    \<and> currentRoom (sockets (fst (joinAsteroid st sid aid)) sid) = Some (''asteroid:'' @ aid)
    \<and> sid \<in> rooms (fst (joinAsteroid st sid aid)) (''asteroid:'' @ aid)
    \<and> list_all (\<lambda>em. fst em \<inter> (rooms st old - {sid}) = {} \<and>
                     fst em \<subseteq> rooms (fst (joinAsteroid st sid aid)) (''asteroid:'' @ aid) \<and>
                     (case snd em of UserLeft name \<Rightarrow> False | _ \<Rightarrow> True))
         (snd (joinAsteroid st sid aid))"
proof -
  let ?new = "''asteroid:'' @ aid"
  have disj: "rooms st ?new \<inter> (rooms st old - {sid}) = {}"
  proof (rule ccontr)
    assume "rooms st ?new \<inter> (rooms st old - {sid}) \<noteq> {}"
    then obtain t where "t \<in> rooms st ?new" "t \<in> rooms st old" by blast
    with assms(1,3) startsWith_room [of aid] have "?new = old"
      unfolding single_room_def by blast
    with assms(5) show False by simp
  qed
  have lp: "rooms (leave_previous st sid r) r = rooms st r" for r
    by (simp add: leave_previous_def)
  have 1: "rooms (fst (joinAsteroid st sid aid)) old = rooms st old - {sid}"
    using assms(3,4,5) by (simp add: join_rooms)
  have 2: "currentRoom (sockets (fst (joinAsteroid st sid aid)) sid) = Some ?new"
    by (simp add: joinAsteroid_def Let_def set_current_def)
  have 3: "rooms (fst (joinAsteroid st sid aid)) ?new = insert sid (rooms st ?new)"
    by (simp add: join_rooms)
  have 4: "list_all (\<lambda>em. fst em \<inter> (rooms st old - {sid}) = {} \<and>
                     fst em \<subseteq> rooms (fst (joinAsteroid st sid aid)) ?new \<and>
                     (case snd em of UserLeft name \<Rightarrow> False | _ \<Rightarrow> True))
         (snd (joinAsteroid st sid aid))"
    unfolding 3 using disj by (auto simp: join_emissions lp)
  show ?thesis using 1 2 3 4 by simp
qed

lemma two_rooms_single: "single_room two_rooms"
  by (auto simp: single_room_def two_rooms_def demo_defs split: if_splits)

theorem switch_is_silent_for_previous_room_witness:
  "single_room two_rooms \<and> currentRoom (sockets two_rooms ''A'') = Some ''asteroid:x''
   \<and> startsWith ''asteroid:x'' ''asteroid:'' \<and> ''A'' \<in> rooms two_rooms ''asteroid:x''
   \<and> ''asteroid:x'' \<noteq> ''asteroid:'' @ ''y''
   \<and> rooms (fst (joinAsteroid two_rooms ''A'' ''y'')) ''asteroid:x'' = rooms two_rooms ''asteroid:x'' - {''A''}
   \<and> currentRoom (sockets (fst (joinAsteroid two_rooms ''A'' ''y'')) ''A'') = Some (''asteroid:'' @ ''y'')
   \<and> ''A'' \<in> rooms (fst (joinAsteroid two_rooms ''A'' ''y'')) (''asteroid:'' @ ''y'')
   \<and> list_all (\<lambda>em. fst em \<inter> (rooms two_rooms ''asteroid:x'' - {''A''}) = {} \<and>
                     fst em \<subseteq> rooms (fst (joinAsteroid two_rooms ''A'' ''y'')) (''asteroid:'' @ ''y'') \<and>
                     (case snd em of UserLeft name \<Rightarrow> False | _ \<Rightarrow> True))
         (snd (joinAsteroid two_rooms ''A'' ''y''))"
proof -
  have h: "currentRoom (sockets two_rooms ''A'') = Some ''asteroid:x''"
    "startsWith ''asteroid:x'' ''asteroid:''" "''A'' \<in> rooms two_rooms ''asteroid:x''"
    "''asteroid:x'' \<noteq> ''asteroid:'' @ ''y''"
    by (simp_all add: two_rooms_def demo_defs startsWith_def)
  show ?thesis
    using switch_is_silent_for_previous_room [OF two_rooms_single h] two_rooms_single h
    by blast
qed

end
